theory Spec2Isabelle
  imports Main "HOL-Library.AList"
begin

section \<open>Errors\<close>

text \<open>
  Every exception that the program or the library calls it makes can raise is a value.
  \<open>IOError\<close> carries the message that \<open>main\<close> builds; the others are the Python
  exception classes raised by \<open>pydicom\<close>, \<open>open\<close>, \<open>os\<close> and \<open>shutil\<close>.
\<close>

datatype error =
    IOError string
  | KeyError
  | AttributeError
  | TypeError
  | ValueError
  | InvalidDicomError
  | FileNotFoundError
  | IsADirectoryError
  | NotADirectoryError
  | FileExistsError
  | OSError
  | SystemExit int

section \<open>DICOM data sets\<close>

text \<open>
  A tag is the pair (group, element). The value of an element is a single string or a
  multi-valued list of strings; \<open>VR\<close> is kept beside it and is never written by the
  program. A data set is the dictionary from tags to elements that \<open>pydicom\<close> keeps.
  The nine elements that the program writes have text VRs in the data dictionary (LO,
  PN, DA, ST, SH); the value of any other element is only ever copied.
\<close>

type_synonym tag = "nat \<times> nat"

datatype elem_value = Single string | Multi "string list"

record data_element =
  VR :: string
  val :: elem_value

type_synonym dataset = "tag \<rightharpoonup> data_element"

text \<open>
  A directory record of a DICOMDIR: its own elements and its child records
  (PATIENT, STUDY, SERIES, IMAGE levels).
\<close>

datatype dir_record = DirRecord (record_dataset: dataset) (children: "dir_record list")

text \<open>
  What \<open>dcmread\<close> returns: the elements of the file and, for a DICOMDIR file only,
  the patient records of its directory.
\<close>

record file_dataset =
  elements :: dataset
  patient_records :: "dir_record list option"

datatype filedata = Garbage | Dicom file_dataset

text \<open>
  The part of the data dictionary of \<open>pydicom\<close> that the program uses
  (DICOM PS3.6; the hexadecimal tags are in the comments).
\<close>

definition tag_for_keyword :: "string \<Rightarrow> tag option" where
  "tag_for_keyword name =
     (if name = ''PatientID'' then Some (16, 32)                \<comment> \<open>(0010,0020)\<close>
      else if name = ''PatientName'' then Some (16, 16)         \<comment> \<open>(0010,0010)\<close>
      else if name = ''PatientBirthDate'' then Some (16, 48)    \<comment> \<open>(0010,0030)\<close>
      else if name = ''InstitutionName'' then Some (8, 128)     \<comment> \<open>(0008,0080)\<close>
      else if name = ''InstitutionAddress'' then Some (8, 129)  \<comment> \<open>(0008,0081)\<close>
      else if name = ''StationName'' then Some (8, 4112)        \<comment> \<open>(0008,1010)\<close>
      else if name = ''DirectoryRecordType'' then Some (4, 5168) \<comment> \<open>(0004,1430)\<close>
      else if name = ''ReferencedFileID'' then Some (4, 5376)   \<comment> \<open>(0004,1500)\<close>
      else None)"

text \<open>
  Assigning a \<open>str\<close> to \<open>DataElement.value\<close>: the setter of \<open>pydicom\<close> splits the string
  at backslashes, the separator of multiple values, unless the VR of the element allows
  a backslash in a value (\<open>ALLOW_BACKSLASH\<close> of \<open>pydicom.valuerep\<close>: the text VRs LT, ST
  and UT, the byte VRs and the ambiguous ones). Values are kept as strings; the
  conversion of a part to a number, which the setter makes for the numeric VRs, is not
  modelled.
\<close>

definition backslash :: char where
  "backslash = CHR 0x5C"

fun split_backslash :: "string \<Rightarrow> string list" where
  "split_backslash [] = [[]]"
| "split_backslash (c # cs) =
     (if c = backslash then [] # split_backslash cs
      else (case split_backslash cs of
              [] \<Rightarrow> [[c]]
            | w # ws \<Rightarrow> (c # w) # ws))"

definition ALLOW_BACKSLASH :: "string set" where
  "ALLOW_BACKSLASH =
     {''LT'', ''ST'', ''UT'', ''US or SS or OW'', ''US or SS'', ''US or OW'', ''OB or OW'',
      ''OB'', ''OD'', ''OF'', ''OL'', ''OV'', ''OW'', ''UN''}"

definition converted :: "string \<Rightarrow> string \<Rightarrow> elem_value" where
  "converted vr v =
     (if vr \<notin> ALLOW_BACKSLASH \<and> backslash \<in> set v then Multi (split_backslash v)
      else Single v)"

text \<open>
  \<open>ds.data_element(name).value = v\<close>: \<open>data_element\<close> returns \<open>None\<close> for an unknown
  keyword (the assignment then raises \<open>AttributeError\<close>) and indexes the data set
  otherwise, which raises \<open>KeyError\<close> when the element is absent. The assignment
  replaces the value of the element, converted as above, and nothing else.
\<close>

definition set_value :: "dataset \<Rightarrow> tag \<Rightarrow> string \<Rightarrow> error + dataset" where
  "set_value ds t v =
     (case ds t of
        None \<Rightarrow> Inl KeyError
      | Some e \<Rightarrow> Inr (ds(t \<mapsto> e\<lparr>val := converted (VR e) v\<rparr>)))"

definition data_element_set :: "dataset \<Rightarrow> string \<Rightarrow> string \<Rightarrow> error + dataset" where
  "data_element_set ds name v =
     (case tag_for_keyword name of
        None \<Rightarrow> Inl AttributeError
      | Some t \<Rightarrow> set_value ds t v)"

text \<open>\<open>if tag in ds: ds[tag].value = v\<close>\<close>

definition set_if_present :: "dataset \<Rightarrow> tag \<Rightarrow> string \<Rightarrow> dataset" where
  "set_if_present ds t v =
     (case ds t of
        None \<Rightarrow> ds
      | Some e \<Rightarrow> ds(t \<mapsto> e\<lparr>val := converted (VR e) v\<rparr>))"

text \<open>\<open>rec.Keyword\<close>: attribute access, \<open>AttributeError\<close> when the element is absent.\<close>

definition getattr :: "dataset \<Rightarrow> string \<Rightarrow> error + elem_value" where
  "getattr ds name =
     (case tag_for_keyword name of
        None \<Rightarrow> Inl AttributeError
      | Some t \<Rightarrow> (case ds t of None \<Rightarrow> Inl AttributeError | Some e \<Rightarrow> Inr (val e)))"

text \<open>\<open>rec["Keyword"]\<close>: item access, \<open>KeyError\<close> when the element is absent.\<close>

definition getitem :: "dataset \<Rightarrow> string \<Rightarrow> error + data_element" where
  "getitem ds name =
     (case tag_for_keyword name of
        None \<Rightarrow> Inl KeyError
      | Some t \<Rightarrow> (case ds t of None \<Rightarrow> Inl KeyError | Some e \<Rightarrow> Inr e))"

text \<open>
  The value multiplicity of an element, as \<open>DataElement.VM\<close> computes it: an empty
  string counts 0, any other string 1, a multi-value its length.
\<close>

definition VM :: "data_element \<Rightarrow> nat" where
  "VM e = (case val e of
             Single s \<Rightarrow> (if s = [] then 0 else 1)
           | Multi xs \<Rightarrow> length xs)"

section \<open>Paths\<close>

text \<open>
  Paths are POSIX strings, as the program handles them. \<open>os_path_join\<close> and
  \<open>os_path_split\<close> follow \<open>posixpath.join\<close> and \<open>posixpath.split\<close>.
\<close>

definition slash :: char where
  "slash = CHR ''/''"

definition os_path_join :: "string \<Rightarrow> string \<Rightarrow> string" where
  "os_path_join a b =
     (if b \<noteq> [] \<and> hd b = slash then b
      else if a = [] \<or> last a = slash then a @ b
      else a @ [slash] @ b)"

definition rstrip_slash :: "string \<Rightarrow> string" where
  "rstrip_slash s = rev (dropWhile (\<lambda>c. c = slash) (rev s))"

definition os_path_split :: "string \<Rightarrow> string \<times> string" where
  "os_path_split p =
     (let tail = rev (takeWhile (\<lambda>c. c \<noteq> slash) (rev p));
          head = take (length p - length tail) p
      in (if head \<noteq> [] \<and> \<not> (\<forall>c \<in> set head. c = slash) then rstrip_slash head else head,
          tail))"

fun split_slash :: "string \<Rightarrow> string list" where
  "split_slash [] = [[]]"
| "split_slash (c # cs) =
     (if c = slash then [] # split_slash cs
      else (case split_slash cs of
              [] \<Rightarrow> [[c]]
            | w # ws \<Rightarrow> (c # w) # ws))"

text \<open>
  A path string names the node reached by its components from the root of the tree.
  The current directory is the root; empty components and \<open>.\<close> are skipped and \<open>..\<close>
  steps back lexically, as \<open>os.path.normpath\<close> does. Symbolic links are not modelled.
\<close>

definition resolve_step :: "string list \<Rightarrow> string \<Rightarrow> string list" where
  "resolve_step acc c =
     (if c = [] \<or> c = ''.'' then acc
      else if c = ''..'' then butlast acc
      else acc @ [c])"

definition resolve :: "string \<Rightarrow> string list" where
  "resolve p = foldl resolve_step [] (split_slash p)"

text \<open>
  \<open>str(Path(*segments))\<close>: the segments are joined, then parsed into components with
  empty ones and \<open>.\<close> dropped; the empty path prints as \<open>.\<close>.
\<close>

fun intercalate_slash :: "string list \<Rightarrow> string" where
  "intercalate_slash [] = []"
| "intercalate_slash [x] = x"
| "intercalate_slash (x # y # ys) = x @ [slash] @ intercalate_slash (y # ys)"

definition Path_str :: "string list \<Rightarrow> string" where
  "Path_str segments =
     (let raw = foldl os_path_join [] segments;
          parts = filter (\<lambda>c. c \<noteq> [] \<and> c \<noteq> ''.'') (split_slash raw);
          anchor = (if raw \<noteq> [] \<and> hd raw = slash then [slash] else [])
      in if anchor = [] \<and> parts = [] then ''.''
         else anchor @ intercalate_slash parts)"

section \<open>The file system\<close>

text \<open>
  A directory is the list of its entries in the order \<open>os.scandir\<close> reports them.
\<close>

datatype node = File filedata | Dir "(string \<times> node) list"

fun lookup :: "node \<Rightarrow> string list \<Rightarrow> node option" where
  "lookup n [] = Some n"
| "lookup n (c # cs) =
     (case n of
        File _ \<Rightarrow> None
      | Dir es \<Rightarrow> (case map_of es c of None \<Rightarrow> None | Some m \<Rightarrow> lookup m cs))"

text \<open>\<open>os.stat\<close> of a path string; the empty string names nothing.\<close>

definition stat :: "node \<Rightarrow> string \<Rightarrow> node option" where
  "stat fs p = (if p = [] then None else lookup fs (resolve p))"

definition os_path_exists :: "node \<Rightarrow> string \<Rightarrow> bool" where
  "os_path_exists fs p = (stat fs p \<noteq> None)"

definition os_path_isfile :: "node \<Rightarrow> string \<Rightarrow> bool" where
  "os_path_isfile fs p = (case stat fs p of Some (File _) \<Rightarrow> True | _ \<Rightarrow> False)"

definition os_path_isdir :: "node \<Rightarrow> string \<Rightarrow> bool" where
  "os_path_isdir fs p = (case stat fs p of Some (Dir _) \<Rightarrow> True | _ \<Rightarrow> False)"

text \<open>
  \<open>dcmread\<close>: the file must exist, be a regular file and parse as DICOM. Opening a path
  that runs through a regular file raises \<open>NotADirectoryError\<close>, any other path that
  names nothing \<open>FileNotFoundError\<close>.
\<close>

fun through_file :: "node \<Rightarrow> string list \<Rightarrow> bool" where
  "through_file n [] = False"
| "through_file n (c # cs) =
     (case n of
        File _ \<Rightarrow> True
      | Dir es \<Rightarrow> (case map_of es c of None \<Rightarrow> False | Some m \<Rightarrow> through_file m cs))"

definition dcmread :: "node \<Rightarrow> string \<Rightarrow> error + file_dataset" where
  "dcmread fs fname =
     (case stat fs fname of
        None \<Rightarrow> (if fname \<noteq> [] \<and> through_file fs (resolve fname) then Inl NotADirectoryError
                 else Inl FileNotFoundError)
      | Some (Dir _) \<Rightarrow> Inl IsADirectoryError
      | Some (File Garbage) \<Rightarrow> Inl InvalidDicomError
      | Some (File (Dicom d)) \<Rightarrow> Inr d)"

section \<open>anonymiseImageFile\<close>

definition anonymiseImageFile ::
  "node \<Rightarrow> string \<Rightarrow> string \<Rightarrow> string \<Rightarrow> string \<Rightarrow> error + file_dataset" where
  "anonymiseImageFile fs fname PatientID PatientName PatientBirthDate =
     (case dcmread fs fname of
        Inl e \<Rightarrow> Inl e
      | Inr instance \<Rightarrow>
     (case data_element_set (elements instance) ''PatientID'' PatientID of
        Inl e \<Rightarrow> Inl e
      | Inr ds1 \<Rightarrow>
     (case data_element_set ds1 ''PatientName'' PatientName of
        Inl e \<Rightarrow> Inl e
      | Inr ds2 \<Rightarrow>
     (case data_element_set ds2 ''PatientBirthDate'' PatientBirthDate of
        Inl e \<Rightarrow> Inl e
      | Inr ds3 \<Rightarrow>
     (case data_element_set ds3 ''InstitutionName'' ''REMOVED'' of
        Inl e \<Rightarrow> Inl e
      | Inr ds4 \<Rightarrow>
     (case data_element_set ds4 ''InstitutionAddress'' ''REMOVED'' of
        Inl e \<Rightarrow> Inl e
      | Inr ds5 \<Rightarrow>
     (case data_element_set ds5 ''StationName'' ''REMOVED'' of
        Inl e \<Rightarrow> Inl e
      | Inr ds6 \<Rightarrow>
          Inr (instance\<lparr>elements :=
                 set_if_present
                   (set_if_present
                      (set_if_present ds6 (8, 144) ''REMOVED'')   \<comment> \<open>(0008,0090)\<close>
                      (8, 4168) ''REMOVED'')                      \<comment> \<open>(0008,1048)\<close>
                   (50, 4146) ''REMOVED''\<rparr>))))))))"             \<comment> \<open>(0032,1032)\<close>

section \<open>Operations on the file system\<close>

text \<open>
  \<open>mkdirs\<close> creates the missing directories along a component list and fails at a
  regular file; \<open>put_file\<close> writes a regular file, whose parent must be a directory and
  which must not itself be a directory; \<open>remove\<close> deletes the entry a component list names.
\<close>

fun mkdirs :: "node \<Rightarrow> string list \<Rightarrow> error + node" where
  "mkdirs n [] = (case n of File _ \<Rightarrow> Inl FileExistsError | Dir _ \<Rightarrow> Inr n)"
| "mkdirs n (c # cs) =
     (case n of
        File _ \<Rightarrow> Inl NotADirectoryError
      | Dir es \<Rightarrow>
          (case mkdirs (case map_of es c of None \<Rightarrow> Dir [] | Some m \<Rightarrow> m) cs of
             Inl e \<Rightarrow> Inl e
           | Inr m' \<Rightarrow> Inr (Dir (AList.update c m' es))))"

fun put_file :: "node \<Rightarrow> string list \<Rightarrow> filedata \<Rightarrow> error + node" where
  "put_file n [] d = (case n of File _ \<Rightarrow> Inr (File d) | Dir _ \<Rightarrow> Inl IsADirectoryError)"
| "put_file n (c # cs) d =
     (case n of
        File _ \<Rightarrow> Inl NotADirectoryError
      | Dir es \<Rightarrow>
          (case map_of es c of
             None \<Rightarrow> (if cs = [] then Inr (Dir (AList.update c (File d) es))
                      else Inl FileNotFoundError)
           | Some m \<Rightarrow>
               (case put_file m cs d of
                  Inl e \<Rightarrow> Inl e
                | Inr m' \<Rightarrow> Inr (Dir (AList.update c m' es)))))"

fun remove :: "node \<Rightarrow> string list \<Rightarrow> node" where
  "remove n [] = n"
| "remove n (c # cs) =
     (case n of
        File d \<Rightarrow> File d
      | Dir es \<Rightarrow>
          (if cs = [] then Dir (AList.delete c es)
           else (case map_of es c of
                   None \<Rightarrow> Dir es
                 | Some m \<Rightarrow> Dir (AList.update c (remove m cs) es))))"

text \<open>\<open>os.makedirs(name, exist_ok=True)\<close>\<close>

definition os_makedirs :: "string \<Rightarrow> node \<Rightarrow> (error + unit) \<times> node" where
  "os_makedirs name fs =
     (if name = [] then (Inl FileNotFoundError, fs)
      else (case mkdirs fs (resolve name) of
              Inl e \<Rightarrow> (Inl e, fs)
            | Inr fs' \<Rightarrow> (Inr (), fs')))"

text \<open>
  \<open>shutil.rmtree(path)\<close>. The root itself cannot be removed: its content is deleted
  and the final \<open>rmdir\<close> raises.
\<close>

definition shutil_rmtree :: "string \<Rightarrow> node \<Rightarrow> (error + unit) \<times> node" where
  "shutil_rmtree path fs =
     (case stat fs path of
        None \<Rightarrow> (Inl FileNotFoundError, fs)
      | Some (File _) \<Rightarrow> (Inl NotADirectoryError, fs)
      | Some (Dir _) \<Rightarrow>
          (if resolve path = [] then (Inl OSError, Dir [])
           else (Inr (), remove fs (resolve path))))"

text \<open>
  \<open>instance.save_as(filename)\<close>: opens the file for writing and writes the data set. The
  file is kept as the data set written, not as bytes. For an image file this is what
  \<open>dcmread\<close> gives back. For a DICOMDIR whose records have changed, \<open>pydicom\<close> writes the
  records with the byte offsets between them that it read, which no longer fit, so the
  file it writes need not parse as a directory again; the byte layout is outside this
  model, and no statement below reads a DICOMDIR that a run has written.
\<close>

definition save_as :: "file_dataset \<Rightarrow> string \<Rightarrow> node \<Rightarrow> (error + unit) \<times> node" where
  "save_as instance filename fs =
     (if filename = [] then (Inl FileNotFoundError, fs)
      else (case put_file fs (resolve filename) (Dicom instance) of
              Inl e \<Rightarrow> (Inl e, fs)
            | Inr fs' \<Rightarrow> (Inr (), fs')))"

text \<open>\<open>read_dicomdir\<close>: \<open>dcmread\<close>, then the file must be a DICOMDIR.\<close>

definition read_dicomdir :: "node \<Rightarrow> string \<Rightarrow> error + file_dataset" where
  "read_dicomdir fs fname =
     (case dcmread fs fname of
        Inl e \<Rightarrow> Inl e
      | Inr d \<Rightarrow> (case patient_records d of None \<Rightarrow> Inl InvalidDicomError | Some _ \<Rightarrow> Inr d))"

text \<open>
  \<open>os.scandir\<close> as \<open>os.walk\<close> uses it: the names of the subdirectories and the names of
  the other entries of a directory, \<open>None\<close> when the path is not a directory that can be
  listed.
\<close>

type_synonym walk_entry = "string \<times> string list \<times> string list"

definition scandir :: "node \<Rightarrow> string \<Rightarrow> (string list \<times> string list) option" where
  "scandir fs t =
     (case stat fs t of
        Some (Dir es) \<Rightarrow>
          Some (map fst (filter (\<lambda>(name, m). case m of Dir _ \<Rightarrow> True | File _ \<Rightarrow> False) es),
                map fst (filter (\<lambda>(name, m). case m of Dir _ \<Rightarrow> False | File _ \<Rightarrow> True) es))
      | _ \<Rightarrow> None)"

text \<open>
  \<open>for (dirpath, dirnames, filenames) in os.walk(top): body\<close>. The generator is top-down
  and lazy: it keeps a stack of the paths still to visit, lists a directory only when it
  takes its path from the stack, yields the entry, and after the body has run puts the
  subdirectories it listed in front of the stack. So the body sees, and the later
  listings see, what earlier runs of the body have written. A path that cannot be listed
  is skipped. The tree can grow while it is walked, so the loop takes \<open>fuel\<close>, a bound on
  the number of paths taken from the stack; \<open>None\<close> is the loop that has not ended within
  it. The result holds the entries that were yielded, in order, beside the outcome of
  the loop and the file system it leaves.
\<close>

fun walk_loop ::
  "nat \<Rightarrow> (walk_entry \<Rightarrow> node \<Rightarrow> (error + unit) \<times> node) \<Rightarrow> string list \<Rightarrow> node
     \<Rightarrow> (walk_entry list \<times> (error + unit) \<times> node) option" where
  "walk_loop fuel body [] fs = Some ([], Inr (), fs)"
| "walk_loop 0 body (t # stack) fs = None"
| "walk_loop (Suc fuel) body (t # stack) fs =
     (case scandir fs t of
        None \<Rightarrow> walk_loop fuel body stack fs
      | Some (dirs, nondirs) \<Rightarrow>
          (case body (t, dirs, nondirs) fs of
             (Inl e, fs1) \<Rightarrow> Some ([(t, dirs, nondirs)], Inl e, fs1)
           | (Inr _, fs1) \<Rightarrow>
               (case walk_loop fuel body (map (os_path_join t) dirs @ stack) fs1 of
                  None \<Rightarrow> None
                | Some (entries, r, fs') \<Rightarrow> Some ((t, dirs, nondirs) # entries, r, fs'))))"

text \<open>\<open>os.path.relpath(path, start)\<close>\<close>

fun common_prefix_len :: "string list \<Rightarrow> string list \<Rightarrow> nat" where
  "common_prefix_len (x # xs) (y # ys) = (if x = y then Suc (common_prefix_len xs ys) else 0)"
| "common_prefix_len _ _ = 0"

definition os_path_relpath :: "string \<Rightarrow> string \<Rightarrow> error + string" where
  "os_path_relpath path start =
     (if path = [] then Inl ValueError
      else (let start_list = resolve start;
                path_list = resolve path;
                i = common_prefix_len start_list path_list;
                rel_list = replicate (length start_list - i) ''..'' @ drop i path_list
            in Inr (if rel_list = [] then ''.'' else intercalate_slash rel_list)))"

text \<open>
  \<open>str(i)\<close> for a natural number; \<open>digit_char\<close> is only applied to a digit below 10.
\<close>

definition digit_char :: "nat \<Rightarrow> char" where
  "digit_char d = ''0123456789'' ! d"

fun str :: "nat \<Rightarrow> string" where
  "str n = (if n < 10 then [digit_char n] else str (n div 10) @ [digit_char (n mod 10)])"

declare str.simps [simp del]

section \<open>isDICOMDIR\<close>

definition isDICOMDIR :: "node \<Rightarrow> string \<Rightarrow> bool" where
  "isDICOMDIR fs fname =
     (drop (length fname - length ''DICOMDIR'') fname = ''DICOMDIR'' \<and> os_path_isfile fs fname)"

section \<open>Loops with effects\<close>

text \<open>
  A \<open>for\<close> loop whose body works on the file system and may raise: the first
  exception ends the loop, with the file system as it is then.
\<close>

fun for_each ::
  "('a \<Rightarrow> node \<Rightarrow> (error + unit) \<times> node) \<Rightarrow> 'a list \<Rightarrow> node \<Rightarrow> (error + unit) \<times> node" where
  "for_each body [] fs = (Inr (), fs)"
| "for_each body (x # xs) fs =
     (case body x fs of
        (Inl e, fs') \<Rightarrow> (Inl e, fs')
      | (Inr _, fs') \<Rightarrow> for_each body xs fs')"

text \<open>A list comprehension whose element expression may raise.\<close>

fun map_result :: "('a \<Rightarrow> error + 'b) \<Rightarrow> 'a list \<Rightarrow> error + 'b list" where
  "map_result f [] = Inr []"
| "map_result f (x # xs) =
     (case f x of
        Inl e \<Rightarrow> Inl e
      | Inr y \<Rightarrow> (case map_result f xs of Inl e \<Rightarrow> Inl e | Inr ys \<Rightarrow> Inr (y # ys)))"

section \<open>anonymiseDICOMDIR\<close>

text \<open>\<open>[ii for ii in records if ii.DirectoryRecordType == record_type]\<close>\<close>

fun records_of_type :: "string \<Rightarrow> dir_record list \<Rightarrow> error + dir_record list" where
  "records_of_type record_type [] = Inr []"
| "records_of_type record_type (ii # rest) =
     (case getattr (record_dataset ii) ''DirectoryRecordType'' of
        Inl e \<Rightarrow> Inl e
      | Inr v \<Rightarrow>
          (case records_of_type record_type rest of
             Inl e \<Rightarrow> Inl e
           | Inr rs \<Rightarrow> Inr (if v = Single record_type then ii # rs else rs)))"

text \<open>
  \<open>Path(*([ee.value] if ee.VM == 1 else ee.value))\<close> as a string. A string whose
  multiplicity is not 1 is empty and unpacks to no segment; a multi-value of length 1
  is passed whole to \<open>Path\<close>, which raises \<open>TypeError\<close>.
\<close>

definition referenced_path :: "data_element \<Rightarrow> error + string" where
  "referenced_path ee =
     (case val ee of
        Single s \<Rightarrow> Inr (Path_str (if VM ee = 1 then [s] else map (\<lambda>c. [c]) s))
      | Multi xs \<Rightarrow> (if VM ee = 1 then Inl TypeError else Inr (Path_str xs)))"

text \<open>The body of the loop over the paths of one series (lines 126 to 143).\<close>

definition anonymise_image ::
  "string \<Rightarrow> string \<Rightarrow> string \<Rightarrow> string \<Rightarrow> string \<Rightarrow> string \<Rightarrow> node \<Rightarrow> (error + unit) \<times> node" where
  "anonymise_image output_path dicomdir_dirname new_ID new_name new_dob p fs =
     (let (dirname, fname) = os_path_split p;
          output_image_directory = os_path_join output_path dirname
      in case os_makedirs output_image_directory fs of
           (Inl e, fs1) \<Rightarrow> (Inl e, fs1)
         | (Inr _, fs1) \<Rightarrow>
             (let input_image_filename =
                    os_path_join (os_path_join dicomdir_dirname dirname) fname
              in if os_path_isfile fs1 input_image_filename
                 then (case anonymiseImageFile fs1 input_image_filename new_ID new_name new_dob of
                         Inl e \<Rightarrow> (Inl e, fs1)
                       | Inr instance \<Rightarrow>
                           save_as instance (os_path_join output_image_directory fname) fs1)
                 else (Inr (), fs1)))"

text \<open>The relative paths of the images of one series (lines 114 to 123).\<close>

definition series_paths :: "dir_record \<Rightarrow> error + string list" where
  "series_paths series =
     (case records_of_type ''IMAGE'' (children series) of
        Inl e \<Rightarrow> Inl e
      | Inr images \<Rightarrow>
     (case map_result (\<lambda>ii. getitem (record_dataset ii) ''ReferencedFileID'') images of
        Inl e \<Rightarrow> Inl e
      | Inr elems \<Rightarrow> map_result referenced_path elems))"

text \<open>The body of the loop over the series of one study (lines 112 to 143).\<close>

definition anonymise_series ::
  "string \<Rightarrow> string \<Rightarrow> string \<Rightarrow> string \<Rightarrow> string \<Rightarrow> dir_record \<Rightarrow> node \<Rightarrow> (error + unit) \<times> node" where
  "anonymise_series output_path dicomdir_dirname new_ID new_name new_dob series fs =
     (case series_paths series of
        Inl e \<Rightarrow> (Inl e, fs)
      | Inr paths \<Rightarrow>
          for_each (anonymise_image output_path dicomdir_dirname new_ID new_name new_dob)
            paths fs)"

text \<open>The body of the loop over the studies of one patient (lines 108 to 143).\<close>

definition anonymise_study ::
  "string \<Rightarrow> string \<Rightarrow> string \<Rightarrow> string \<Rightarrow> string \<Rightarrow> dir_record \<Rightarrow> node \<Rightarrow> (error + unit) \<times> node" where
  "anonymise_study output_path dicomdir_dirname new_ID new_name new_dob study fs =
     (case records_of_type ''SERIES'' (children study) of
        Inl e \<Rightarrow> (Inl e, fs)
      | Inr all_series \<Rightarrow>
          for_each (anonymise_series output_path dicomdir_dirname new_ID new_name new_dob)
            all_series fs)"

text \<open>
  The body of the loop over the patient records (lines 85 to 143): \<open>n\<close> is
  \<open>len(dicom_dir.patient_records)\<close> and \<open>i\<close> the ordinal. The record is returned with
  its three elements rewritten.
\<close>

definition anonymise_patient ::
  "string \<Rightarrow> string \<Rightarrow> nat \<Rightarrow> nat \<Rightarrow> dir_record \<Rightarrow> node \<Rightarrow> (error + dir_record) \<times> node" where
  "anonymise_patient output_path dicomdir_dirname n i dicomdir_patient fs =
     (case getattr (record_dataset dicomdir_patient) ''PatientID'' of
        Inl e \<Rightarrow> (Inl e, fs)
      | Inr old_ID \<Rightarrow>
     (case getattr (record_dataset dicomdir_patient) ''PatientName'' of
        Inl e \<Rightarrow> (Inl e, fs)
      | Inr old_name \<Rightarrow>
     (case getattr (record_dataset dicomdir_patient) ''PatientBirthDate'' of
        Inl e \<Rightarrow> (Inl e, fs)
      | Inr old_dob \<Rightarrow>
     (let new_ID = (if n > 1 then ''REMOVED - '' @ str i else ''REMOVED'');
          new_name = (if n > 1 then ''REMOVED - '' @ str i else ''REMOVED'');
          new_dob = ''99991231''
      in
     (case data_element_set (record_dataset dicomdir_patient) ''PatientID'' new_ID of
        Inl e \<Rightarrow> (Inl e, fs)
      | Inr ds1 \<Rightarrow>
     (case data_element_set ds1 ''PatientName'' new_name of
        Inl e \<Rightarrow> (Inl e, fs)
      | Inr ds2 \<Rightarrow>
     (case data_element_set ds2 ''PatientBirthDate'' new_dob of
        Inl e \<Rightarrow> (Inl e, fs)
      | Inr ds3 \<Rightarrow>
     (case records_of_type ''STUDY'' (children dicomdir_patient) of
        Inl e \<Rightarrow> (Inl e, fs)
      | Inr studies \<Rightarrow>
     (case for_each (anonymise_study output_path dicomdir_dirname new_ID new_name new_dob)
             studies fs of
        (Inl e, fs') \<Rightarrow> (Inl e, fs')
      | (Inr _, fs') \<Rightarrow> (Inr (DirRecord ds3 (children dicomdir_patient)), fs'))))))))))"

text \<open>\<open>for i, dicomdir_patient in enumerate(dicom_dir.patient_records)\<close>\<close>

fun anonymise_patients ::
  "string \<Rightarrow> string \<Rightarrow> nat \<Rightarrow> nat \<Rightarrow> dir_record list \<Rightarrow> node \<Rightarrow> (error + dir_record list) \<times> node" where
  "anonymise_patients output_path dicomdir_dirname n i [] fs = (Inr [], fs)"
| "anonymise_patients output_path dicomdir_dirname n i (dicomdir_patient # rest) fs =
     (case anonymise_patient output_path dicomdir_dirname n i dicomdir_patient fs of
        (Inl e, fs') \<Rightarrow> (Inl e, fs')
      | (Inr patient', fs') \<Rightarrow>
          (case anonymise_patients output_path dicomdir_dirname n (Suc i) rest fs' of
             (Inl e, fs'') \<Rightarrow> (Inl e, fs'')
           | (Inr rest', fs'') \<Rightarrow> (Inr (patient' # rest'), fs'')))"

definition anonymiseDICOMDIR ::
  "string \<Rightarrow> string \<Rightarrow> node \<Rightarrow> (error + file_dataset) \<times> node" where
  "anonymiseDICOMDIR fname output_path fs =
     (case read_dicomdir fs fname of
        Inl e \<Rightarrow> (Inl e, fs)
      | Inr dicom_dir \<Rightarrow>
          (let dicomdir_dirname = fst (os_path_split fname);
               records = (case patient_records dicom_dir of None \<Rightarrow> [] | Some rs \<Rightarrow> rs)
           in case anonymise_patients output_path dicomdir_dirname (length records) 0 records fs of
                (Inl e, fs') \<Rightarrow> (Inl e, fs')
              | (Inr records', fs') \<Rightarrow>
                  (Inr (dicom_dir\<lparr>patient_records := Some records'\<rparr>), fs')))"

section \<open>anonymiseDirectory\<close>

text \<open>The body of the loop over the files of one directory (lines 166 to 173).\<close>

definition anonymise_file ::
  "string \<Rightarrow> string \<Rightarrow> string \<Rightarrow> node \<Rightarrow> (error + unit) \<times> node" where
  "anonymise_file dirpath output_image_directory image_filename fs =
     (let input_image_filename = os_path_join dirpath image_filename
      in case anonymiseImageFile fs input_image_filename ''REMOVED'' ''REMOVED'' ''99991231'' of
           Inl e \<Rightarrow> (Inl e, fs)
         | Inr instance \<Rightarrow>
             save_as instance (os_path_join output_image_directory image_filename) fs)"

text \<open>The body of the loop over the walk (lines 158 to 173).\<close>

definition anonymise_walked ::
  "string \<Rightarrow> string \<Rightarrow> walk_entry \<Rightarrow> node \<Rightarrow> (error + unit) \<times> node" where
  "anonymise_walked fname output_path entry fs =
     (case entry of (dirpath, dirnames, filenames) \<Rightarrow>
        if length filenames > 0 \<and> length dirnames = 0
        then (case os_path_relpath dirpath fname of
                Inl e \<Rightarrow> (Inl e, fs)
              | Inr rel \<Rightarrow>
                  (let output_image_directory = os_path_join output_path rel
                   in case os_makedirs output_image_directory fs of
                        (Inl e, fs1) \<Rightarrow> (Inl e, fs1)
                      | (Inr _, fs1) \<Rightarrow>
                          for_each (anonymise_file dirpath output_image_directory)
                            filenames fs1))
        else (Inr (), fs))"

text \<open>
  The loop over the walk (line 155), with the fuel of the walk. The result is \<open>None\<close>
  when the walk has not ended within the fuel, and otherwise the entries the walk
  yielded, the exception raised if any, and the file system left.
\<close>

definition anonymiseDirectory ::
  "nat \<Rightarrow> string \<Rightarrow> string \<Rightarrow> node \<Rightarrow> (walk_entry list \<times> (error + unit) \<times> node) option" where
  "anonymiseDirectory fuel fname output_path fs =
     walk_loop fuel (anonymise_walked fname output_path) [fname] fs"

section \<open>main\<close>

text \<open>
  A run gives the lines it printed and its outcome: the value returned or the exception
  raised, with the file system left; the outcome is \<open>None\<close> when the walk of directory
  mode has not ended within the fuel. Each branch prints its line before it starts to
  work. Lines 202 to 239 are \<open>main_dispatch\<close>, which runs on the file system that lines
  189 to 200 leave.
\<close>

definition main_dispatch ::
  "nat \<Rightarrow> string \<Rightarrow> string \<Rightarrow> node \<Rightarrow> string list \<times> ((error + int) \<times> node) option" where
  "main_dispatch fuel input_path output_path fs =
     (if isDICOMDIR fs input_path \<and> os_path_isfile fs input_path
      then ([input_path @ '' is a DICOMDIR file''],
            Some (case anonymiseDICOMDIR input_path output_path fs of
                    (Inl e, fs') \<Rightarrow> (Inl e, fs')
                  | (Inr dicom_dir, fs') \<Rightarrow>
                      (case save_as dicom_dir (output_path @ ''/DICOMDIR'') fs' of
                         (Inl e, fs'') \<Rightarrow> (Inl e, fs'')
                       | (Inr _, fs'') \<Rightarrow> (Inr 0, fs''))))
      else if os_path_isdir fs input_path
              \<and> isDICOMDIR fs (os_path_join input_path ''DICOMDIR'')
      then ([input_path @ '' is a directory with a DICOMDIR file''],
            Some (case anonymiseDICOMDIR (os_path_join input_path ''DICOMDIR'') output_path fs of
                    (Inl e, fs') \<Rightarrow> (Inl e, fs')
                  | (Inr dicom_dir, fs') \<Rightarrow>
                      (case save_as dicom_dir (output_path @ ''/DICOMDIR'') fs' of
                         (Inl e, fs'') \<Rightarrow> (Inl e, fs'')
                       | (Inr _, fs'') \<Rightarrow> (Inr 0, fs''))))
      else if os_path_isdir fs input_path
              \<and> \<not> isDICOMDIR fs (os_path_join input_path ''DICOMDIR'')
      then ([input_path @ '' is a directory without a DICOMDIR file''],
            (case anonymiseDirectory fuel input_path output_path fs of
               None \<Rightarrow> None
             | Some (entries, Inl e, fs') \<Rightarrow> Some (Inl e, fs')
             | Some (entries, Inr _, fs') \<Rightarrow> Some (Inr 0, fs')))
      else if os_path_isfile fs input_path
      then ([input_path @ '' is a DICOM file''],
            Some (case anonymiseImageFile fs input_path ''REMOVED'' ''REMOVED'' ''99991231'' of
                    Inl e \<Rightarrow> (Inl e, fs)
                  | Inr instance \<Rightarrow>
                      (case save_as instance output_path fs of
                         (Inl e, fs') \<Rightarrow> (Inl e, fs')
                       | (Inr _, fs') \<Rightarrow> (Inr 0, fs'))))
      else ([],
            Some (Inl (IOError (input_path
                    @ '' exists but it is not a DICOMDIR file, nor a directory with DICOM image files.'')),
                  fs)))"

definition main ::
  "nat \<Rightarrow> string \<Rightarrow> string list \<Rightarrow> node \<Rightarrow> string list \<times> ((error + int) \<times> node) option" where
  "main fuel prog argv fs =
     (case argv of
        _ # input_path # output_path # _ \<Rightarrow>
          if \<not> os_path_exists fs input_path
          then ([], Some (Inl (IOError (input_path @ '' does not exists.'')), fs))
          else
            (case (if os_path_exists fs output_path
                   then (if \<not> os_path_isdir fs output_path
                         then (Inl (IOError (output_path
                                 @ '' exists but it is not a directory.'')), fs)
                         else shutil_rmtree output_path fs)
                   else (Inr (), fs)) of
               (Inl e, fs1) \<Rightarrow> ([], Some (Inl e, fs1))
             | (Inr _, fs1) \<Rightarrow>
                 (case os_makedirs output_path fs1 of
                    (Inl e, fs2) \<Rightarrow> ([], Some (Inl e, fs2))
                  | (Inr _, fs2) \<Rightarrow> main_dispatch fuel input_path output_path fs2))
      | _ \<Rightarrow>
          ([''Usage: python '' @ prog
              @ '' <input_directory_with_DICOM_series> <output_directory>''],
           Some (Inl (SystemExit 1), fs)))"

section \<open>Auxiliary definitions for the statements\<close>

text \<open>
  The tags that \<open>anonymiseImageFile\<close> writes: six through their keyword, which must be
  present, and three by number, which may be absent.
\<close>

definition mandatory_tags :: "tag set" where
  "mandatory_tags = {(16, 32), (16, 16), (16, 48), (8, 128), (8, 129), (8, 4112)}"

definition optional_tags :: "tag set" where
  "optional_tags = {(8, 144), (8, 4168), (50, 4146)}"

definition redacted_tags :: "tag set" where
  "redacted_tags = mandatory_tags \<union> optional_tags"

text \<open>
  The string assigned to a tag, if any, its effect on one element and on a data set, and
  the value that the constant \<open>REMOVED\<close> leaves in an element.
\<close>

definition REMOVED :: elem_value where
  "REMOVED = Single ''REMOVED''"

definition redaction :: "string \<Rightarrow> string \<Rightarrow> string \<Rightarrow> tag \<Rightarrow> string option" where
  "redaction pid pname dob t =
     (if t = (16, 32) then Some pid
      else if t = (16, 16) then Some pname
      else if t = (16, 48) then Some dob
      else if t \<in> {(8, 128), (8, 129), (8, 4112), (8, 144), (8, 4168), (50, 4146)}
      then Some ''REMOVED''
      else None)"

definition redact_element :: "string option \<Rightarrow> data_element \<Rightarrow> data_element" where
  "redact_element vo e = (case vo of None \<Rightarrow> e | Some v \<Rightarrow> e\<lparr>val := converted (VR e) v\<rparr>)"

definition redact_all :: "dataset \<Rightarrow> string \<Rightarrow> string \<Rightarrow> string \<Rightarrow> dataset" where
  "redact_all ds pid pname dob t =
     map_option (redact_element (redaction pid pname dob t)) (ds t)"

text \<open>A small image file and a tree that holds it, for the concrete instances below.\<close>

definition example_dataset :: dataset where
  "example_dataset =
     [(16, 32) \<mapsto> \<lparr>VR = ''LO'', val = Single ''ID-0042''\<rparr>,
      (16, 16) \<mapsto> \<lparr>VR = ''PN'', val = Single ''Doe^Jane''\<rparr>,
      (16, 48) \<mapsto> \<lparr>VR = ''DA'', val = Single ''19700101''\<rparr>,
      (8, 128) \<mapsto> \<lparr>VR = ''LO'', val = Single ''General Hospital''\<rparr>,
      (8, 129) \<mapsto> \<lparr>VR = ''ST'', val = Single ''1 Main Street''\<rparr>,
      (8, 4112) \<mapsto> \<lparr>VR = ''SH'', val = Single ''CT01''\<rparr>,
      (8, 144) \<mapsto> \<lparr>VR = ''PN'', val = Single ''Smith^John''\<rparr>,
      (32, 13) \<mapsto> \<lparr>VR = ''UI'', val = Single ''1.2.840.1''\<rparr>]"

definition example_instance :: file_dataset where
  "example_instance = \<lparr>elements = example_dataset, patient_records = None\<rparr>"

definition example_fs :: node where
  "example_fs = Dir [(''scan'', Dir [(''a.dcm'', File (Dicom example_instance))])]"

definition example_tree :: node where
  "example_tree =
     Dir [(''scan'', Dir [(''a.dcm'', File (Dicom example_instance))]),
          (''out'', Dir [(''old.txt'', File Garbage)]),
          (''notes.txt'', File Garbage)]"

definition example_named :: node where
  "example_named = Dir [(''xDICOMDIR'', File (Dicom example_instance))]"

definition example_nested :: node where
  "example_nested = Dir [(''out'', Dir [(''a.dcm'', File (Dicom example_instance))])]"

text \<open>The lines that a run printed, its outcome, and the message of the final error.\<close>

definition printed :: "string list \<times> ((error + int) \<times> node) option \<Rightarrow> string list" where
  "printed run = fst run"

definition outcome ::
  "string list \<times> ((error + int) \<times> node) option \<Rightarrow> ((error + int) \<times> node) option" where
  "outcome run = snd run"

definition unsupported_message :: "string \<Rightarrow> string" where
  "unsupported_message input_path =
     input_path @ '' exists but it is not a DICOMDIR file, nor a directory with DICOM image files.''"

text \<open>
  The content of the regular file that a component list names, if it names one, and the
  statement that a path holds a DICOM file with a given patient identity. An identity
  is plain when none of its three strings holds a backslash, so that each is stored as
  it is given.
\<close>

definition file_at :: "node \<Rightarrow> string list \<Rightarrow> filedata option" where
  "file_at fs ps = (case lookup fs ps of Some (File d) \<Rightarrow> Some d | _ \<Rightarrow> None)"

definition has_identity :: "file_dataset \<Rightarrow> string \<Rightarrow> string \<Rightarrow> string \<Rightarrow> bool" where
  "has_identity d pid pname dob =
     (getattr (elements d) ''PatientID'' = Inr (Single pid) \<and>
      getattr (elements d) ''PatientName'' = Inr (Single pname) \<and>
      getattr (elements d) ''PatientBirthDate'' = Inr (Single dob))"


definition carries_identity :: "node \<Rightarrow> string \<Rightarrow> string \<Rightarrow> string \<Rightarrow> string \<Rightarrow> bool" where
  "carries_identity fs p pid pname dob =
     (p \<noteq> [] \<and>
      (case file_at fs (resolve p) of
         Some (Dicom d) \<Rightarrow> has_identity d pid pname dob
       | _ \<Rightarrow> False))"

text \<open>
  The identifier given to patient \<open>i\<close> of \<open>n\<close> (lines 89 to 94), the three elements of
  a patient record after the rewrite, and the paths that a patient record owns through
  its STUDY, SERIES and IMAGE records.
\<close>

definition replacement_id :: "nat \<Rightarrow> nat \<Rightarrow> string" where
  "replacement_id n i = (if n > 1 then ''REMOVED - '' @ str i else ''REMOVED'')"

definition patient_redact :: "dataset \<Rightarrow> nat \<Rightarrow> nat \<Rightarrow> dataset" where
  "patient_redact ds n i =
     set_if_present
       (set_if_present
          (set_if_present ds (16, 32) (replacement_id n i))
          (16, 16) (replacement_id n i))
       (16, 48) ''99991231''"


definition owns_image :: "dir_record \<Rightarrow> string \<Rightarrow> bool" where
  "owns_image patient p =
     (\<exists>studies study all_series series paths.
        records_of_type ''STUDY'' (children patient) = Inr studies \<and> study \<in> set studies \<and>
        records_of_type ''SERIES'' (children study) = Inr all_series \<and> series \<in> set all_series \<and>
        series_paths series = Inr paths \<and> p \<in> set paths)"

text \<open>
  A DICOMDIR with two patients, one study and one series each; the second patient has
  two images, of which \<open>IMG/3\<close> is not on the disc.
\<close>

definition example_record :: "string \<Rightarrow> dir_record list \<Rightarrow> dir_record" where
  "example_record record_type cs =
     DirRecord [(4, 5168) \<mapsto> \<lparr>VR = ''CS'', val = Single record_type\<rparr>] cs"

definition example_image :: "string list \<Rightarrow> dir_record" where
  "example_image segments =
     DirRecord [(4, 5168) \<mapsto> \<lparr>VR = ''CS'', val = Single ''IMAGE''\<rparr>,
                (4, 5376) \<mapsto> \<lparr>VR = ''CS'', val = Multi segments\<rparr>] []"

definition example_patient :: "string \<Rightarrow> dir_record list \<Rightarrow> dir_record" where
  "example_patient pid images =
     DirRecord [(4, 5168) \<mapsto> \<lparr>VR = ''CS'', val = Single ''PATIENT''\<rparr>,
                (16, 32) \<mapsto> \<lparr>VR = ''LO'', val = Single pid\<rparr>,
                (16, 16) \<mapsto> \<lparr>VR = ''PN'', val = Single ''Doe^Jane''\<rparr>,
                (16, 48) \<mapsto> \<lparr>VR = ''DA'', val = Single ''19700101''\<rparr>]
       [example_record ''STUDY'' [example_record ''SERIES'' images]]"

definition example_index :: file_dataset where
  "example_index =
     \<lparr>elements = Map.empty,
      patient_records = Some
        [example_patient ''ID-1'' [example_image [''IMG'', ''1'']],
         example_patient ''ID-2'' [example_image [''IMG'', ''2''], example_image [''IMG'', ''3'']]]\<rparr>"

definition example_disc :: node where
  "example_disc =
     Dir [(''disc'', Dir [(''DICOMDIR'', File (Dicom example_index)),
                          (''IMG'', Dir [(''1'', File (Dicom example_instance)),
                                         (''2'', File (Dicom example_instance))])]),
          (''out'', Dir [])]"

text \<open>
  A disc whose index lists the image \<open>A\<close> and then the image \<open>A/B\<close>, which cannot both
  be regular files.
\<close>

definition example_listing :: "dir_record list" where
  "example_listing =
     [example_patient ''ID-1''
        [DirRecord [(4, 5168) \<mapsto> \<lparr>VR = ''CS'', val = Single ''IMAGE''\<rparr>,
                    (4, 5376) \<mapsto> \<lparr>VR = ''CS'', val = Single ''A''\<rparr>] [],
         example_image [''A'', ''B'']]]"

definition example_clash :: node where
  "example_clash =
     Dir [(''disc'', Dir [(''DICOMDIR'',
                           File (Dicom \<lparr>elements = Map.empty, patient_records = Some example_listing\<rparr>)),
                          (''A'', File (Dicom example_instance))])]"


definition example_dirs :: node where
  "example_dirs =
     Dir [(''in'', Dir [(''a'', Dir [(''f1'', File (Dicom example_instance)),
                                     (''f2'', File (Dicom example_instance))]),
                        (''b'', Dir [(''sub'', Dir [(''g'', File (Dicom example_instance))]),
                                     (''h'', File (Dicom example_instance))]),
                        (''c'', Dir [])]),
          (''out'', Dir [])]"

text \<open>
  A tree walked with the output directory inside it: \<open>e\<close> is visited before \<open>a\<close>, and
  the output directory \<open>in/a/out\<close> does not exist when the walk starts.
\<close>

definition example_overlap :: node where
  "example_overlap =
     Dir [(''in'', Dir [(''e'', Dir [(''g'', File (Dicom example_instance))]),
                        (''a'', Dir [(''f1'', File (Dicom example_instance))])])]"




fun dir_size :: "node \<Rightarrow> nat" where
  "dir_size (File d) = 0"
| "dir_size (Dir es) = Suc (sum_list (map (\<lambda>(c, m). dir_size m) es))"





section \<open>Properties of anonymiseImageFile\<close>

lemma converted_plain: "backslash \<notin> set v \<Longrightarrow> converted vr v = Single v"
  by (simp add: converted_def)

lemma converted_REMOVED: "converted vr ''REMOVED'' = REMOVED"
  by (simp add: converted_def backslash_def REMOVED_def)

lemma set_if_present_apply:
  "set_if_present ds t v u =
     (if u = t then map_option (\<lambda>e. e\<lparr>val := converted (VR e) v\<rparr>) (ds u) else ds u)"
  by (simp add: set_if_present_def split: option.splits)

lemma set_value_conv:
  "set_value ds t v = (if ds t = None then Inl KeyError else Inr (set_if_present ds t v))"
  by (simp add: set_value_def set_if_present_def split: option.splits)

lemma data_element_set_keywords:
  "data_element_set ds ''PatientID'' v = set_value ds (16, 32) v"
  "data_element_set ds ''PatientName'' v = set_value ds (16, 16) v"
  "data_element_set ds ''PatientBirthDate'' v = set_value ds (16, 48) v"
  "data_element_set ds ''InstitutionName'' v = set_value ds (8, 128) v"
  "data_element_set ds ''InstitutionAddress'' v = set_value ds (8, 129) v"
  "data_element_set ds ''StationName'' v = set_value ds (8, 4112) v"
  by (simp_all add: data_element_set_def tag_for_keyword_def)

lemma redact_element_simps:
  "redact_element (Some v) = (\<lambda>e. e\<lparr>val := converted (VR e) v\<rparr>)"
  "redact_element None = (\<lambda>e. e)"
  by (rule ext, simp add: redact_element_def)+

lemma anonymise_conv:
  "anonymiseImageFile fs fname pid pname dob =
     (case dcmread fs fname of
        Inl e \<Rightarrow> Inl e
      | Inr inst \<Rightarrow>
          if mandatory_tags \<subseteq> dom (elements inst)
          then Inr (inst\<lparr>elements := redact_all (elements inst) pid pname dob\<rparr>)
          else Inl KeyError)"
proof (cases "dcmread fs fname")
  case (Inl e)
  then show ?thesis by (simp add: anonymiseImageFile_def)
next
  case (Inr inst)
  show ?thesis
  proof (cases "mandatory_tags \<subseteq> dom (elements inst)")
    case True
    then have p: "elements inst (16, 32) \<noteq> None" "elements inst (16, 16) \<noteq> None"
      "elements inst (16, 48) \<noteq> None" "elements inst (8, 128) \<noteq> None"
      "elements inst (8, 129) \<noteq> None" "elements inst (8, 4112) \<noteq> None"
      by (auto simp: mandatory_tags_def)
    have eq: "set_if_present (set_if_present (set_if_present
             (set_if_present (set_if_present (set_if_present
             (set_if_present (set_if_present (set_if_present (elements inst)
               (16, 32) pid) (16, 16) pname) (16, 48) dob)
               (8, 128) ''REMOVED'') (8, 129) ''REMOVED'') (8, 4112) ''REMOVED'')
               (8, 144) ''REMOVED'') (8, 4168) ''REMOVED'') (50, 4146) ''REMOVED''
           = redact_all (elements inst) pid pname dob"
      by (rule ext) (simp add: set_if_present_apply redact_all_def redaction_def
            redact_element_simps option.map_ident)
    show ?thesis
      using p True
      by (simp add: anonymiseImageFile_def Inr data_element_set_keywords set_value_conv
            set_if_present_apply eq)
  next
    case False
    then have "elements inst (16, 32) = None \<or> elements inst (16, 16) = None \<or>
      elements inst (16, 48) = None \<or> elements inst (8, 128) = None \<or>
      elements inst (8, 129) = None \<or> elements inst (8, 4112) = None"
      by (auto simp: mandatory_tags_def)
    then show ?thesis
      using False
      by (auto simp add: anonymiseImageFile_def Inr data_element_set_keywords set_value_conv
            set_if_present_apply)
  qed
qed

lemma redaction_None: "t \<notin> redacted_tags \<Longrightarrow> redaction pid pname dob t = None"
  by (simp add: redacted_tags_def mandatory_tags_def optional_tags_def redaction_def)

lemma dom_redact_all: "dom (redact_all ds pid pname dob) = dom ds"
  by (auto simp: redact_all_def dom_def)

lemma redact_element_idem: "redact_element vo (redact_element vo e) = redact_element vo e"
  by (cases vo) (simp_all add: redact_element_def)

lemma redact_all_idem:
  "redact_all (redact_all ds pid pname dob) pid pname dob = redact_all ds pid pname dob"
  by (rule ext) (simp add: redact_all_def option.map_comp comp_def redact_element_idem)

lemma VR_redact_element: "VR (redact_element vo e) = VR e"
  by (simp add: redact_element_def split: option.splits)

lemma dcmread_example: "dcmread example_fs ''scan/a.dcm'' = Inr example_instance"
  by (simp add: dcmread_def stat_def example_fs_def resolve_def resolve_step_def slash_def)

lemma example_mandatory: "mandatory_tags \<subseteq> dom (elements example_instance)"
  by (simp add: mandatory_tags_def example_instance_def example_dataset_def)

lemma example_anonymised:
  "\<exists>r. anonymiseImageFile example_fs ''scan/a.dcm'' pid pname dob = Inr r"
  by (simp add: anonymise_conv dcmread_example example_mandatory)

text \<open>
  C1, as stated, fails: with a replacement value for PatientID made of the letter \<open>a\<close>,
  a backslash and the letter \<open>b\<close>, and an element of VR LO, the setter splits the
  string at the backslash, and the record returned holds the multi-value of \<open>a\<close> and
  \<open>b\<close>, not the value given.
\<close>

theorem backslash_value_counterexample:
  "dcmread example_fs ''scan/a.dcm'' = Inr example_instance \<and>
   (\<exists>r. anonymiseImageFile example_fs ''scan/a.dcm'' [CHR ''a'', backslash, CHR ''b'']
            ''REMOVED'' ''99991231'' = Inr r \<and>
        getattr (elements r) ''PatientID'' = Inr (Multi [''a'', ''b'']) \<and>
        getattr (elements r) ''PatientID'' \<noteq> Inr (Single [CHR ''a'', backslash, CHR ''b'']))"
  by (simp add: anonymise_conv dcmread_example example_mandatory getattr_def
        tag_for_keyword_def redact_all_def redaction_def redact_element_def
        example_instance_def example_dataset_def converted_def ALLOW_BACKSLASH_def
        backslash_def mandatory_tags_def)

text \<open>
  C1, amended: when the file reads as a data set, \<open>anonymiseImageFile\<close> returns a record
  as soon as the six keyword elements are present, whether or not the three optional
  tags are; in every record it returns, PatientID, PatientName and PatientBirthDate hold
  the three arguments as the value setter stores them in the element that was read:
  the argument itself when it contains no backslash, and in general its conversion
  under the VR of that element. InstitutionName, InstitutionAddress and StationName
  equal \<open>REMOVED\<close>, and each optional tag equals \<open>REMOVED\<close> exactly when the input had
  it (and is still absent otherwise).
\<close>

theorem anonymiseImageFile_redacts:
  assumes "dcmread fs fname = Inr inst"
  shows "(mandatory_tags \<subseteq> dom (elements inst) \<longrightarrow>
            (\<exists>r. anonymiseImageFile fs fname pid pname dob = Inr r)) \<and>
         (\<forall>r. anonymiseImageFile fs fname pid pname dob = Inr r \<longrightarrow>
            (\<exists>e1 e2 e3.
               elements inst (16, 32) = Some e1 \<and> elements inst (16, 16) = Some e2 \<and>
               elements inst (16, 48) = Some e3 \<and>
               getattr (elements r) ''PatientID'' = Inr (converted (VR e1) pid) \<and>
               getattr (elements r) ''PatientName'' = Inr (converted (VR e2) pname) \<and>
               getattr (elements r) ''PatientBirthDate'' = Inr (converted (VR e3) dob)) \<and>
            (backslash \<notin> set pid \<longrightarrow> getattr (elements r) ''PatientID'' = Inr (Single pid)) \<and>
            (backslash \<notin> set pname \<longrightarrow>
               getattr (elements r) ''PatientName'' = Inr (Single pname)) \<and>
            (backslash \<notin> set dob \<longrightarrow>
               getattr (elements r) ''PatientBirthDate'' = Inr (Single dob)) \<and>
            getattr (elements r) ''InstitutionName'' = Inr REMOVED \<and>
            getattr (elements r) ''InstitutionAddress'' = Inr REMOVED \<and>
            getattr (elements r) ''StationName'' = Inr REMOVED \<and>
            (\<forall>t \<in> optional_tags.
               map_option val (elements r t) =
                 (if t \<in> dom (elements inst) then Some REMOVED else None)))"
proof (intro conjI impI allI)
  assume "mandatory_tags \<subseteq> dom (elements inst)"
  then show "\<exists>r. anonymiseImageFile fs fname pid pname dob = Inr r"
    by (simp add: anonymise_conv assms)
next
  fix r
  assume a: "anonymiseImageFile fs fname pid pname dob = Inr r"
  then have m: "mandatory_tags \<subseteq> dom (elements inst)"
    and r: "elements r = redact_all (elements inst) pid pname dob"
    by (auto simp: anonymise_conv assms split: if_splits)
  from m obtain e1 e2 e3 e4 e5 e6 where p:
      "elements inst (16, 32) = Some e1" "elements inst (16, 16) = Some e2"
      "elements inst (16, 48) = Some e3" "elements inst (8, 128) = Some e4"
      "elements inst (8, 129) = Some e5" "elements inst (8, 4112) = Some e6"
    by (auto simp: mandatory_tags_def)
  have g: "getattr (elements r) ''PatientID'' = Inr (converted (VR e1) pid)"
    "getattr (elements r) ''PatientName'' = Inr (converted (VR e2) pname)"
    "getattr (elements r) ''PatientBirthDate'' = Inr (converted (VR e3) dob)"
    using p by (simp_all add: getattr_def tag_for_keyword_def r redact_all_def redaction_def
        redact_element_def)
  from p g show "\<exists>e1 e2 e3.
               elements inst (16, 32) = Some e1 \<and> elements inst (16, 16) = Some e2 \<and>
               elements inst (16, 48) = Some e3 \<and>
               getattr (elements r) ''PatientID'' = Inr (converted (VR e1) pid) \<and>
               getattr (elements r) ''PatientName'' = Inr (converted (VR e2) pname) \<and>
               getattr (elements r) ''PatientBirthDate'' = Inr (converted (VR e3) dob)"
    by blast
  show "getattr (elements r) ''PatientID'' = Inr (Single pid)" if "backslash \<notin> set pid"
    using g(1) that by (simp add: converted_plain)
  show "getattr (elements r) ''PatientName'' = Inr (Single pname)" if "backslash \<notin> set pname"
    using g(2) that by (simp add: converted_plain)
  show "getattr (elements r) ''PatientBirthDate'' = Inr (Single dob)" if "backslash \<notin> set dob"
    using g(3) that by (simp add: converted_plain)
  show "getattr (elements r) ''InstitutionName'' = Inr REMOVED"
    using p by (simp add: getattr_def tag_for_keyword_def r redact_all_def redaction_def
        redact_element_def converted_REMOVED)
  show "getattr (elements r) ''InstitutionAddress'' = Inr REMOVED"
    using p by (simp add: getattr_def tag_for_keyword_def r redact_all_def redaction_def
        redact_element_def converted_REMOVED)
  show "getattr (elements r) ''StationName'' = Inr REMOVED"
    using p by (simp add: getattr_def tag_for_keyword_def r redact_all_def redaction_def
        redact_element_def converted_REMOVED)
  show "\<forall>t \<in> optional_tags.
               map_option val (elements r t) =
                 (if t \<in> dom (elements inst) then Some REMOVED else None)"
    by (auto simp: optional_tags_def r redact_all_def redaction_def redact_element_def
        converted_REMOVED)
qed

theorem anonymiseImageFile_redacts_witness:
  "dcmread example_fs ''scan/a.dcm'' = Inr example_instance \<and>
   (\<exists>r. anonymiseImageFile example_fs ''scan/a.dcm'' ''REMOVED - 3'' ''REMOVED - 3'' ''99991231'' = Inr r \<and>
        getattr (elements r) ''PatientID'' = Inr (Single ''REMOVED - 3'') \<and>
        getattr (elements r) ''PatientBirthDate'' = Inr (Single ''99991231'') \<and>
        getattr (elements r) ''StationName'' = Inr REMOVED \<and>
        map_option val (elements r (8, 144)) = Some REMOVED \<and>
        map_option val (elements r (8, 4168)) = None \<and>
        map_option val (elements r (50, 4146)) = None)"
proof -
  note t = anonymiseImageFile_redacts [OF dcmread_example,
      of "''REMOVED - 3''" "''REMOVED - 3''" "''99991231''"]
  from t example_mandatory obtain r where
    r: "anonymiseImageFile example_fs ''scan/a.dcm'' ''REMOVED - 3'' ''REMOVED - 3'' ''99991231'' = Inr r"
    by blast
  have o: "(8, 144) \<in> optional_tags" "(8, 4168) \<in> optional_tags" "(50, 4146) \<in> optional_tags"
    by (simp_all add: optional_tags_def)
  have d: "(8, 144) \<in> dom (elements example_instance)"
    "(8, 4168) \<notin> dom (elements example_instance)"
    "(50, 4146) \<notin> dom (elements example_instance)"
    by (simp_all add: example_instance_def example_dataset_def)
  have nb: "backslash \<notin> set ''REMOVED - 3''" "backslash \<notin> set ''99991231''"
    by (simp_all add: backslash_def)
  from t r nb have "getattr (elements r) ''PatientID'' = Inr (Single ''REMOVED - 3'')"
    "getattr (elements r) ''PatientBirthDate'' = Inr (Single ''99991231'')"
    "getattr (elements r) ''StationName'' = Inr REMOVED"
    "\<forall>t \<in> optional_tags. map_option val (elements r t) =
        (if t \<in> dom (elements example_instance) then Some REMOVED else None)"
    by blast+
  with o d r dcmread_example show ?thesis
    by (metis (full_types))
qed

text \<open>
  C3: the record returned differs from the one read in the values of the nine redacted
  tags only: every other element is the input's, no element is added or removed, the
  value representation of every element is kept, and so is the directory part.
\<close>

theorem anonymiseImageFile_frame:
  assumes "anonymiseImageFile fs fname pid pname dob = Inr r"
  shows "\<exists>inst. dcmread fs fname = Inr inst \<and>
           patient_records r = patient_records inst \<and>
           dom (elements r) = dom (elements inst) \<and>
           (\<forall>t. t \<notin> redacted_tags \<longrightarrow> elements r t = elements inst t) \<and>
           (\<forall>t. map_option VR (elements r t) = map_option VR (elements inst t))"
proof -
  from assms obtain inst where i: "dcmread fs fname = Inr inst"
    and r: "r = inst\<lparr>elements := redact_all (elements inst) pid pname dob\<rparr>"
    by (auto simp: anonymise_conv split: sum.splits if_splits)
  have "\<forall>t. t \<notin> redacted_tags \<longrightarrow> elements r t = elements inst t"
    by (simp add: r redact_all_def redaction_None redact_element_simps option.map_ident)
  moreover have "\<forall>t. map_option VR (elements r t) = map_option VR (elements inst t)"
    by (simp add: r redact_all_def option.map_comp comp_def VR_redact_element)
  moreover have "dom (elements r) = dom (elements inst)"
    by (simp add: r dom_redact_all)
  moreover have "patient_records r = patient_records inst"
    by (simp add: r)
  ultimately show ?thesis using i by blast
qed

theorem anonymiseImageFile_frame_witness:
  "\<exists>r. anonymiseImageFile example_fs ''scan/a.dcm'' ''REMOVED'' ''REMOVED'' ''99991231'' = Inr r \<and>
       patient_records r = None \<and>
       elements r (32, 13) = Some \<lparr>VR = ''UI'', val = Single ''1.2.840.1''\<rparr> \<and>
       elements r (40, 16) = None \<and>
       map_option VR (elements r (16, 16)) = Some ''PN''"
proof -
  obtain r where
    r: "anonymiseImageFile example_fs ''scan/a.dcm'' ''REMOVED'' ''REMOVED'' ''99991231'' = Inr r"
    using example_anonymised by blast
  have n: "(32, 13) \<notin> redacted_tags" "(40, 16) \<notin> redacted_tags"
    by (simp_all add: redacted_tags_def mandatory_tags_def optional_tags_def)
  from anonymiseImageFile_frame [OF r] dcmread_example
  have "patient_records r = patient_records example_instance"
    "\<forall>t. t \<notin> redacted_tags \<longrightarrow> elements r t = elements example_instance t"
    "\<forall>t. map_option VR (elements r t) = map_option VR (elements example_instance t)"
    by auto
  with n have "patient_records r = None"
    "elements r (32, 13) = Some \<lparr>VR = ''UI'', val = Single ''1.2.840.1''\<rparr>"
    "elements r (40, 16) = None"
    "map_option VR (elements r (16, 16)) = Some ''PN''"
    by (simp_all add: example_instance_def example_dataset_def)
  with r show ?thesis by blast
qed

section \<open>Properties of main\<close>

subsection \<open>Facts about the file system\<close>

lemma map_of_update_same: "map_of (AList.update c v es) c = Some v"
  by (simp add: update_conv')









lemmas path_eval = resolve_def resolve_step_def slash_def stat_def
  os_path_exists_def os_path_isdir_def os_path_isfile_def


subsection \<open>The checks before the dispatch\<close>




lemma mkdirs_is_dir: "mkdirs n cs = Inr n' \<Longrightarrow> \<exists>es. lookup n' cs = Some (Dir es)"
proof (induction cs arbitrary: n n')
  case Nil
  then show ?case by (auto split: node.splits)
next
  case (Cons c cs)
  then show ?case
    by (auto simp: map_of_update_same split: node.splits sum.splits)
qed

lemma put_file_on_dir: "lookup n cs = Some (Dir es) \<Longrightarrow> put_file n cs d = Inl IsADirectoryError"
proof (induction cs arbitrary: n)
  case Nil
  then show ?case by simp
next
  case (Cons c cs)
  from Cons.prems obtain es0 m where n: "n = Dir es0" and m: "map_of es0 c = Some m"
    and l: "lookup m cs = Some (Dir es)"
    by (auto split: node.splits option.splits)
  from Cons.IH [OF l] show ?case
    by (simp add: n m)
qed

lemma save_as_on_dir:
  assumes "os_makedirs p fs1 = (Inr (), fs2)"
  shows "save_as instance p fs2 = (Inl IsADirectoryError, fs2)"
proof -
  from assms have ne: "p \<noteq> []" and mk: "mkdirs fs1 (resolve p) = Inr fs2"
    by (auto simp: os_makedirs_def split: if_splits sum.splits)
  from mkdirs_is_dir [OF mk] obtain es where "lookup fs2 (resolve p) = Some (Dir es)" by blast
  then show ?thesis
    by (simp add: save_as_def ne put_file_on_dir)
qed

lemma dispatch_printed:
  "printed (main_dispatch fuel input_path output_path fs) =
     (if isDICOMDIR fs input_path \<and> os_path_isfile fs input_path
      then [input_path @ '' is a DICOMDIR file'']
      else if os_path_isdir fs input_path
              \<and> isDICOMDIR fs (os_path_join input_path ''DICOMDIR'')
      then [input_path @ '' is a directory with a DICOMDIR file'']
      else if os_path_isdir fs input_path
      then [input_path @ '' is a directory without a DICOMDIR file'']
      else if os_path_isfile fs input_path
      then [input_path @ '' is a DICOM file'']
      else [])"
  by (simp add: main_dispatch_def printed_def)

lemma main_printed_cases:
  "(\<exists>fs1 fs2. os_makedirs output_path fs1 = (Inr (), fs2) \<and>
       main fuel prog (a0 # input_path # output_path # rest) fs
         = main_dispatch fuel input_path output_path fs2)
   \<or> printed (main fuel prog (a0 # input_path # output_path # rest) fs) = []"
  by (auto simp: main_def printed_def split: prod.splits sum.splits)

subsection \<open>Single-file mode\<close>

lemma dispatch_single_file:
  assumes "os_makedirs output_path fs1 = (Inr (), fs2)"
    and "printed (main_dispatch fuel input_path output_path fs2) = [input_path @ '' is a DICOM file'']"
  shows "\<exists>e fs'. outcome (main_dispatch fuel input_path output_path fs2) = Some (Inl e, fs')"
proof -
  from assms(2) have c: "\<not> (isDICOMDIR fs2 input_path \<and> os_path_isfile fs2 input_path)"
    "\<not> os_path_isdir fs2 input_path" "os_path_isfile fs2 input_path"
    by (auto simp: dispatch_printed split: if_splits)
  show ?thesis
    using c by (simp add: main_dispatch_def outcome_def save_as_on_dir [OF assms(1)] split: sum.splits)
qed

text \<open>
  C8: the branch for a regular file passes \<open>output_path\<close> itself to \<open>save_as\<close>, but
  \<open>os.makedirs(output_path)\<close> has just made that path a directory, so the write raises:
  every run that takes this branch ends in an exception, and no run leaves the
  anonymised record in a file at \<open>output_path\<close>.
\<close>

theorem main_single_file_fails:
  assumes "printed (main fuel prog (a0 # input_path # output_path # rest) fs)
             = [input_path @ '' is a DICOM file'']"
  shows "\<exists>e fs'. outcome (main fuel prog (a0 # input_path # output_path # rest) fs) = Some (Inl e, fs')"
proof -
  from main_printed_cases [where output_path=output_path and prog=prog and ?a0.0=a0
      and input_path=input_path and rest=rest and fs=fs and fuel=fuel] assms
  obtain fs1 fs2 where mk: "os_makedirs output_path fs1 = (Inr (), fs2)"
    and m: "main fuel prog (a0 # input_path # output_path # rest) fs
              = main_dispatch fuel input_path output_path fs2"
    by auto
  from dispatch_single_file [OF mk] assms show ?thesis
    by (simp add: m)
qed

lemma example_single_run:
  "main 10 ''anonymize.py'' [''anonymize.py'', ''scan/a.dcm'', ''anon.dcm''] example_tree =
     ([''scan/a.dcm is a DICOM file''],
      Some (Inl IsADirectoryError,
            Dir [(''scan'', Dir [(''a.dcm'', File (Dicom example_instance))]),
                 (''out'', Dir [(''old.txt'', File Garbage)]),
                 (''notes.txt'', File Garbage),
                 (''anon.dcm'', Dir [])]))"
proof -
  let ?fs2 = "Dir [(''scan'', Dir [(''a.dcm'', File (Dicom example_instance))]),
           (''out'', Dir [(''old.txt'', File Garbage)]),
           (''notes.txt'', File Garbage),
           (''anon.dcm'', Dir [])]"
  have mk: "os_makedirs ''anon.dcm'' example_tree = (Inr (), ?fs2)"
    by (simp add: os_makedirs_def example_tree_def path_eval)
  have pre: "os_path_exists example_tree ''scan/a.dcm''" "\<not> os_path_exists example_tree ''anon.dcm''"
    by (simp_all add: example_tree_def path_eval)
  have m: "main 10 ''anonymize.py'' [''anonymize.py'', ''scan/a.dcm'', ''anon.dcm''] example_tree
             = main_dispatch 10 ''scan/a.dcm'' ''anon.dcm'' ?fs2"
    by (simp add: main_def pre mk)
  have rd: "dcmread ?fs2 ''scan/a.dcm'' = Inr example_instance"
    by (simp add: dcmread_def path_eval)
  have c: "\<not> isDICOMDIR ?fs2 ''scan/a.dcm''" "\<not> os_path_isdir ?fs2 ''scan/a.dcm''"
    "os_path_isfile ?fs2 ''scan/a.dcm''"
    by (simp_all add: isDICOMDIR_def path_eval)
  show ?thesis
    unfolding m using c
    by (simp add: main_dispatch_def anonymise_conv rd example_mandatory save_as_on_dir [OF mk])
qed

theorem main_single_file_fails_witness:
  "os_path_isfile example_tree ''scan/a.dcm'' \<and>
   \<not> os_path_exists example_tree ''anon.dcm'' \<and>
   (\<exists>r. anonymiseImageFile example_tree ''scan/a.dcm'' ''REMOVED'' ''REMOVED'' ''99991231'' = Inr r) \<and>
   printed (main 10 ''anonymize.py'' [''anonymize.py'', ''scan/a.dcm'', ''anon.dcm''] example_tree)
     = [''scan/a.dcm is a DICOM file''] \<and>
   outcome (main 10 ''anonymize.py'' [''anonymize.py'', ''scan/a.dcm'', ''anon.dcm''] example_tree)
     = Some (Inl IsADirectoryError,
             Dir [(''scan'', Dir [(''a.dcm'', File (Dicom example_instance))]),
                  (''out'', Dir [(''old.txt'', File Garbage)]),
                  (''notes.txt'', File Garbage),
                  (''anon.dcm'', Dir [])])"
proof -
  have rd: "dcmread example_tree ''scan/a.dcm'' = Inr example_instance"
    by (simp add: dcmread_def example_tree_def path_eval)
  have a: "os_path_isfile example_tree ''scan/a.dcm''" "\<not> os_path_exists example_tree ''anon.dcm''"
    by (simp_all add: example_tree_def path_eval)
  have b: "\<exists>r. anonymiseImageFile example_tree ''scan/a.dcm'' ''REMOVED'' ''REMOVED'' ''99991231'' = Inr r"
    by (simp add: anonymise_conv rd example_mandatory)
  have p: "printed (main 10 ''anonymize.py'' [''anonymize.py'', ''scan/a.dcm'', ''anon.dcm''] example_tree)
     = [''scan/a.dcm'' @ '' is a DICOM file'']"
    by (simp add: example_single_run printed_def)
  from main_single_file_fails [OF p] a b p show ?thesis
    by (simp add: example_single_run outcome_def)
qed

subsection \<open>Classification of the input\<close>

lemma ends_with_DICOMDIR:
  "(drop (length s - length ''DICOMDIR'') s = ''DICOMDIR'') \<longleftrightarrow> (\<exists>pre. s = pre @ ''DICOMDIR'')"
proof
  assume a: "drop (length s - length ''DICOMDIR'') s = ''DICOMDIR''"
  have "s = take (length s - length ''DICOMDIR'') s @ drop (length s - length ''DICOMDIR'') s"
    by simp
  with a show "\<exists>pre. s = pre @ ''DICOMDIR''" by metis
next
  assume "\<exists>pre. s = pre @ ''DICOMDIR''"
  then show "drop (length s - length ''DICOMDIR'') s = ''DICOMDIR''" by auto
qed

lemma isfile_not_isdir: "os_path_isfile fs p \<Longrightarrow> \<not> os_path_isdir fs p"
  by (auto simp: os_path_isfile_def os_path_isdir_def split: option.splits node.splits)

text \<open>
  C9: \<open>isDICOMDIR\<close> is documented as the test that a path is the path of a DICOMDIR
  file, and the directory branches of \<open>main\<close> look for the entry named \<open>DICOMDIR\<close>; but
  the test compares only the last eight characters of the path string. The regular file
  \<open>xDICOMDIR\<close>, an image file whose name is not \<open>DICOMDIR\<close>, passes it: the run takes the
  branch for a DICOMDIR file instead of the one for a single image file, and ends in the
  error of reading an image as a directory index.
\<close>

theorem suffix_named_file_taken_as_index:
  "os_path_isfile example_named ''xDICOMDIR'' \<and>
   snd (os_path_split ''xDICOMDIR'') \<noteq> ''DICOMDIR'' \<and>
   isDICOMDIR example_named ''xDICOMDIR'' \<and>
   main 10 ''anonymize.py'' [''anonymize.py'', ''xDICOMDIR'', ''out''] example_named
     = ([''xDICOMDIR is a DICOMDIR file''],
        Some (Inl InvalidDicomError,
              Dir [(''xDICOMDIR'', File (Dicom example_instance)), (''out'', Dir [])]))"
proof -
  let ?fs2 = "Dir [(''xDICOMDIR'', File (Dicom example_instance)), (''out'', Dir [])]"
  have mk: "os_makedirs ''out'' example_named = (Inr (), ?fs2)"
    by (simp add: os_makedirs_def example_named_def path_eval)
  have pre: "os_path_exists example_named ''xDICOMDIR''" "\<not> os_path_exists example_named ''out''"
    "os_path_isfile example_named ''xDICOMDIR''" "isDICOMDIR example_named ''xDICOMDIR''"
    by (simp_all add: example_named_def isDICOMDIR_def path_eval)
  have m: "main 10 ''anonymize.py'' [''anonymize.py'', ''xDICOMDIR'', ''out''] example_named
             = main_dispatch 10 ''xDICOMDIR'' ''out'' ?fs2"
    by (simp add: main_def pre mk)
  have c: "isDICOMDIR ?fs2 ''xDICOMDIR''" "os_path_isfile ?fs2 ''xDICOMDIR''"
    by (simp_all add: isDICOMDIR_def path_eval)
  have rd: "read_dicomdir ?fs2 ''xDICOMDIR'' = Inl InvalidDicomError"
    by (simp add: read_dicomdir_def dcmread_def path_eval example_instance_def)
  have s: "snd (os_path_split ''xDICOMDIR'') \<noteq> ''DICOMDIR''"
    by (simp add: os_path_split_def slash_def)
  have d: "main_dispatch 10 ''xDICOMDIR'' ''out'' ?fs2
             = ([''xDICOMDIR is a DICOMDIR file''], Some (Inl InvalidDicomError, ?fs2))"
    using c by (simp add: main_dispatch_def anonymiseDICOMDIR_def rd)
  show ?thesis
    using pre(3,4) s by (simp add: m d)
qed

theorem suffix_named_file_taken_as_index_witness:
  "isDICOMDIR example_named ''xDICOMDIR'' \<and>
   printed (main 10 ''anonymize.py'' [''anonymize.py'', ''xDICOMDIR'', ''out''] example_named)
     = [''xDICOMDIR is a DICOMDIR file''] \<and>
   (\<exists>fs'. outcome (main 10 ''anonymize.py'' [''anonymize.py'', ''xDICOMDIR'', ''out''] example_named)
     = Some (Inl InvalidDicomError, fs'))"
  using suffix_named_file_taken_as_index by (simp add: printed_def outcome_def)

text \<open>
  In general the dispatch takes the DICOMDIR branch exactly when the input path is a
  regular file and its string ends with the eight characters \<open>DICOMDIR\<close>; a regular file
  whose path does not end so is handled as a single image file.
\<close>

lemma dispatch_index_file_classification:
  "(printed (main_dispatch fuel input_path output_path fs) = [input_path @ '' is a DICOMDIR file'']
      \<longleftrightarrow> (\<exists>pre. input_path = pre @ ''DICOMDIR'') \<and> os_path_isfile fs input_path) \<and>
   (os_path_isfile fs input_path \<and> \<not> (\<exists>pre. input_path = pre @ ''DICOMDIR'')
      \<longrightarrow> printed (main_dispatch fuel input_path output_path fs) = [input_path @ '' is a DICOM file''])"
proof -
  have i: "isDICOMDIR fs input_path \<longleftrightarrow>
             (\<exists>pre. input_path = pre @ ''DICOMDIR'') \<and> os_path_isfile fs input_path"
    unfolding isDICOMDIR_def ends_with_DICOMDIR ..
  show ?thesis
    using isfile_not_isdir [of fs input_path]
    by (auto simp: dispatch_printed i)
qed

text \<open>
  C10, as stated, fails: the input \<open>out/a.dcm\<close> exists and is a regular file, the
  output directory \<open>out\<close> that holds it is removed before the dispatch, and the run
  ends in the final error.
\<close>

theorem unsupported_input_counterexample:
  "os_path_exists example_nested ''out/a.dcm'' \<and>
   os_path_isfile example_nested ''out/a.dcm'' \<and>
   main 10 ''anonymize.py'' [''anonymize.py'', ''out/a.dcm'', ''out''] example_nested =
     ([], Some (Inl (IOError (unsupported_message ''out/a.dcm'')), Dir [(''out'', Dir [])]))"
proof -
  let ?fs2 = "Dir [(''out'', Dir [])]"
  have pre: "os_path_exists example_nested ''out/a.dcm''" "os_path_isfile example_nested ''out/a.dcm''"
    "os_path_exists example_nested ''out''" "os_path_isdir example_nested ''out''"
    by (simp_all add: example_nested_def path_eval)
  have rm: "shutil_rmtree ''out'' example_nested = (Inr (), Dir [])"
    by (simp add: shutil_rmtree_def example_nested_def path_eval)
  have mk: "os_makedirs ''out'' (Dir []) = (Inr (), ?fs2)"
    by (simp add: os_makedirs_def path_eval)
  have m: "main 10 ''anonymize.py'' [''anonymize.py'', ''out/a.dcm'', ''out''] example_nested
             = main_dispatch 10 ''out/a.dcm'' ''out'' ?fs2"
    by (simp add: main_def pre rm mk)
  have c: "\<not> isDICOMDIR ?fs2 ''out/a.dcm''" "\<not> os_path_isdir ?fs2 ''out/a.dcm''"
    "\<not> os_path_isfile ?fs2 ''out/a.dcm''"
    by (simp_all add: isDICOMDIR_def path_eval)
  have "main_dispatch 10 ''out/a.dcm'' ''out'' ?fs2
          = ([], Some (Inl (IOError (unsupported_message ''out/a.dcm'')), ?fs2))"
    using c by (simp add: main_dispatch_def unsupported_message_def)
  with pre m show ?thesis by simp
qed

lemma dispatch_unsupported:
  "\<not> os_path_isfile fs input_path \<Longrightarrow> \<not> os_path_isdir fs input_path \<Longrightarrow>
     main_dispatch fuel input_path output_path fs
       = ([], Some (Inl (IOError (unsupported_message input_path)), fs))"
  by (simp add: main_dispatch_def unsupported_message_def)

text \<open>
  C10, amended: on the file system that the dispatch starts on, that is after the output
  directory has been removed and created again, the final error is raised exactly when
  the input path is neither a regular file nor a directory; a regular file takes the
  DICOMDIR or the single-file branch and a directory one of the two directory branches.
\<close>

theorem dispatch_unsupported_only_if_neither:
  "(main_dispatch fuel input_path output_path fs
      = ([], Some (Inl (IOError (unsupported_message input_path)), fs))
    \<longleftrightarrow> \<not> os_path_isfile fs input_path \<and> \<not> os_path_isdir fs input_path) \<and>
   (os_path_isfile fs input_path \<longrightarrow>
      printed (main_dispatch fuel input_path output_path fs)
        \<in> {[input_path @ '' is a DICOMDIR file''], [input_path @ '' is a DICOM file'']}) \<and>
   (os_path_isdir fs input_path \<longrightarrow>
      printed (main_dispatch fuel input_path output_path fs)
        \<in> {[input_path @ '' is a directory with a DICOMDIR file''],
            [input_path @ '' is a directory without a DICOMDIR file'']})"
proof (intro conjI impI iffI)
  assume a: "main_dispatch fuel input_path output_path fs
      = ([], Some (Inl (IOError (unsupported_message input_path)), fs))"
  then have "printed (main_dispatch fuel input_path output_path fs) = []"
    by (simp add: printed_def)
  then show "\<not> os_path_isfile fs input_path" "\<not> os_path_isdir fs input_path"
    by (auto simp: dispatch_printed split: if_splits)
next
  assume "\<not> os_path_isfile fs input_path \<and> \<not> os_path_isdir fs input_path"
  then show "main_dispatch fuel input_path output_path fs
      = ([], Some (Inl (IOError (unsupported_message input_path)), fs))"
    by (simp add: dispatch_unsupported)
next
  assume "os_path_isfile fs input_path"
  then show "printed (main_dispatch fuel input_path output_path fs)
        \<in> {[input_path @ '' is a DICOMDIR file''], [input_path @ '' is a DICOM file'']}"
    using isfile_not_isdir [of fs input_path] by (simp add: dispatch_printed)
next
  assume "os_path_isdir fs input_path"
  then show "printed (main_dispatch fuel input_path output_path fs)
        \<in> {[input_path @ '' is a directory with a DICOMDIR file''],
            [input_path @ '' is a directory without a DICOMDIR file'']}"
    using isfile_not_isdir [of fs input_path] by (auto simp add: dispatch_printed)
qed

theorem dispatch_unsupported_only_if_neither_witness:
  "os_path_isfile example_tree ''scan/a.dcm'' \<and>
   printed (main_dispatch 10 ''scan/a.dcm'' ''out'' example_tree)
     \<in> {[''scan/a.dcm is a DICOMDIR file''], [''scan/a.dcm is a DICOM file'']} \<and>
   os_path_isdir example_tree ''scan'' \<and>
   printed (main_dispatch 10 ''scan'' ''out'' example_tree)
     \<in> {[''scan is a directory with a DICOMDIR file''],
         [''scan is a directory without a DICOMDIR file'']} \<and>
   main_dispatch 10 ''gone'' ''out'' example_tree
     = ([], Some (Inl (IOError (unsupported_message ''gone'')), example_tree))"
proof -
  have a: "os_path_isfile example_tree ''scan/a.dcm''" "os_path_isdir example_tree ''scan''"
    "\<not> os_path_isfile example_tree ''gone''" "\<not> os_path_isdir example_tree ''gone''"
    by (simp_all add: example_tree_def path_eval)
  from dispatch_unsupported_only_if_neither [where fuel=10 and input_path="''scan/a.dcm''"
      and output_path="''out''" and fs=example_tree]
    dispatch_unsupported_only_if_neither [where fuel=10 and input_path="''scan''"
      and output_path="''out''" and fs=example_tree]
    dispatch_unsupported_only_if_neither [where fuel=10 and input_path="''gone''"
      and output_path="''out''" and fs=example_tree] a
  show ?thesis by simp
qed

section \<open>What the file system operations keep\<close>

lemma file_at_Nil: "file_at n [] = (case n of File d \<Rightarrow> Some d | Dir _ \<Rightarrow> None)"
  by (simp add: file_at_def split: node.splits)


lemma file_at_Dir_Cons:
  "file_at (Dir es) (q # qs) = (case map_of es q of None \<Rightarrow> None | Some m \<Rightarrow> file_at m qs)"
  by (simp add: file_at_def split: option.splits)

lemma file_at_empty_dir: "file_at (Dir []) ps = None"
  by (cases ps) (simp_all add: file_at_Nil file_at_Dir_Cons)

lemma file_at_mkdirs: "mkdirs n cs = Inr n' \<Longrightarrow> file_at n' ps = file_at n ps"
proof (induction cs arbitrary: n n' ps)
  case Nil
  then show ?case by (simp split: node.splits)
next
  case (Cons c cs)
  from Cons.prems obtain es m' where n: "n = Dir es"
    and m': "mkdirs (case map_of es c of None \<Rightarrow> Dir [] | Some m \<Rightarrow> m) cs = Inr m'"
    and n': "n' = Dir (AList.update c m' es)"
    by (auto split: node.splits sum.splits)
  note IH = Cons.IH [OF m']
  show ?case
  proof (cases ps)
    case Nil
    then show ?thesis by (simp add: n n' file_at_Nil)
  next
    case (Cons q qs)
    show ?thesis
    proof (cases "q = c")
      case True
      then show ?thesis
        by (simp add: Cons n n' file_at_Dir_Cons update_conv' IH file_at_empty_dir
              split: option.splits)
    next
      case False
      then show ?thesis
        by (simp add: Cons n n' file_at_Dir_Cons update_conv')
    qed
  qed
qed


lemma isfile_file_at:
  "os_path_isfile fs p \<longleftrightarrow> p \<noteq> [] \<and> file_at fs (resolve p) \<noteq> None"
  by (auto simp: os_path_isfile_def stat_def file_at_def split: option.splits node.splits)

lemma dcmread_file_at:
  "dcmread fs p = Inr d \<longleftrightarrow> p \<noteq> [] \<and> file_at fs (resolve p) = Some (Dicom d)"
  by (auto simp: dcmread_def stat_def file_at_def split: option.splits node.splits filedata.splits)

lemma file_at_os_makedirs: "os_makedirs p fs = (r, fs') \<Longrightarrow> file_at fs' = file_at fs"
  by (rule ext) (auto simp: os_makedirs_def file_at_mkdirs split: if_splits sum.splits)




section \<open>Loops and the files they write\<close>



lemma anonymise_Inr_iff:
  "anonymiseImageFile fs fname pid pname dob = Inr r \<longleftrightarrow>
     (\<exists>inst. dcmread fs fname = Inr inst \<and> mandatory_tags \<subseteq> dom (elements inst) \<and>
        r = inst\<lparr>elements := redact_all (elements inst) pid pname dob\<rparr>)"
  by (cases "dcmread fs fname") (auto simp: anonymise_conv)






lemma isfile_cong: "file_at fs' = file_at fs \<Longrightarrow> os_path_isfile fs' S = os_path_isfile fs S"
  unfolding isfile_file_at by (erule ssubst) (rule refl)







lemma anonymise_image_missing:
  assumes "os_path_split p = (dirname, fname)"
    and "\<not> os_path_isfile fs (os_path_join (os_path_join dicomdir_dirname dirname) fname)"
  shows "anonymise_image output_path dicomdir_dirname pid pname dob p fs
           = os_makedirs (os_path_join output_path dirname) fs"
proof -
  obtain r1 fs1 where mk: "os_makedirs (os_path_join output_path dirname) fs = (r1, fs1)"
    by (cases "os_makedirs (os_path_join output_path dirname) fs")
  from isfile_cong [OF file_at_os_makedirs [OF mk]] assms(2)
  have "\<not> os_path_isfile fs1 (os_path_join (os_path_join dicomdir_dirname dirname) fname)"
    by simp
  then show ?thesis
    by (cases r1) (simp_all add: anonymise_image_def assms(1) mk)
qed












lemma getattr_keywords:
  "getattr ds ''PatientID'' = (case ds (16, 32) of None \<Rightarrow> Inl AttributeError | Some e \<Rightarrow> Inr (val e))"
  "getattr ds ''PatientName'' = (case ds (16, 16) of None \<Rightarrow> Inl AttributeError | Some e \<Rightarrow> Inr (val e))"
  "getattr ds ''PatientBirthDate'' = (case ds (16, 48) of None \<Rightarrow> Inl AttributeError | Some e \<Rightarrow> Inr (val e))"
  by (simp_all add: getattr_def tag_for_keyword_def)

lemma anonymise_patient_conv:
  "anonymise_patient output_path dicomdir_dirname n i pat fs =
     (if record_dataset pat (16, 32) \<noteq> None \<and> record_dataset pat (16, 16) \<noteq> None
         \<and> record_dataset pat (16, 48) \<noteq> None
      then (case records_of_type ''STUDY'' (children pat) of
              Inl e \<Rightarrow> (Inl e, fs)
            | Inr studies \<Rightarrow>
                (case for_each (anonymise_study output_path dicomdir_dirname
                        (replacement_id n i) (replacement_id n i) ''99991231'') studies fs of
                   (Inl e, fs') \<Rightarrow> (Inl e, fs')
                 | (Inr _, fs') \<Rightarrow>
                     (Inr (DirRecord (patient_redact (record_dataset pat) n i) (children pat)), fs')))
      else (Inl AttributeError, fs))"
proof (cases "record_dataset pat (16, 32)")
  case None
  then show ?thesis by (simp add: anonymise_patient_def getattr_keywords)
next
  case a: (Some e1)
  show ?thesis
  proof (cases "record_dataset pat (16, 16)")
    case None
    then show ?thesis by (simp add: anonymise_patient_def getattr_keywords a)
  next
    case b: (Some e2)
    show ?thesis
    proof (cases "record_dataset pat (16, 48)")
      case None
      then show ?thesis by (simp add: anonymise_patient_def getattr_keywords a b)
    next
      case c: (Some e3)
      have rid: "(if n > 1 then ''REMOVED - '' @ str i else ''REMOVED'') = replacement_id n i"
        by (simp add: replacement_id_def)
      show ?thesis
        unfolding anonymise_patient_def Let_def rid patient_redact_def
        by (simp add: getattr_keywords a b c
              data_element_set_keywords set_value_conv set_if_present_apply
              patient_redact_def)
    qed
  qed
qed


lemma anonymise_patient_Inr:
  assumes "anonymise_patient output_path dicomdir_dirname n i pat fs = (Inr pat', fs')"
  shows "record_dataset pat (16, 32) \<noteq> None \<and> record_dataset pat (16, 16) \<noteq> None \<and>
         record_dataset pat (16, 48) \<noteq> None \<and>
         pat' = DirRecord (patient_redact (record_dataset pat) n i) (children pat) \<and>
         (\<exists>studies u. records_of_type ''STUDY'' (children pat) = Inr studies \<and>
            for_each (anonymise_study output_path dicomdir_dirname
               (replacement_id n i) (replacement_id n i) ''99991231'') studies fs = (Inr u, fs'))"
proof -
  have p: "record_dataset pat (16, 32) \<noteq> None \<and> record_dataset pat (16, 16) \<noteq> None
         \<and> record_dataset pat (16, 48) \<noteq> None"
    using assms by (auto simp: anonymise_patient_conv split: if_splits)
  show ?thesis
  proof (cases "records_of_type ''STUDY'' (children pat)")
    case (Inl e)
    with assms p show ?thesis by (simp add: anonymise_patient_conv)
  next
    case (Inr studies)
    obtain r1 fs1 where l: "for_each (anonymise_study output_path dicomdir_dirname
               (replacement_id n i) (replacement_id n i) ''99991231'') studies fs = (r1, fs1)"
      by (cases "for_each (anonymise_study output_path dicomdir_dirname
               (replacement_id n i) (replacement_id n i) ''99991231'') studies fs")
    show ?thesis
    proof (cases r1)
      case (Inl e)
      with assms p Inr l show ?thesis by (simp add: anonymise_patient_conv)
    next
      case u: (Inr u)
      with assms p Inr l have "fs' = fs1"
        "pat' = DirRecord (patient_redact (record_dataset pat) n i) (children pat)"
        by (simp_all add: anonymise_patient_conv)
      with p Inr l u show ?thesis by simp
    qed
  qed
qed








section \<open>Index mode\<close>






lemmas index_eval = anonymiseDICOMDIR_def read_dicomdir_def dcmread_def path_eval
  example_disc_def example_index_def example_patient_def example_record_def example_image_def
  anonymise_patient_conv anonymise_study_def anonymise_series_def series_paths_def
  getattr_def getitem_def tag_for_keyword_def referenced_path_def VM_def Path_str_def
  os_path_join_def os_path_split_def rstrip_slash_def anonymise_image_def os_makedirs_def
  save_as_def anonymise_conv example_mandatory Let_def


lemma carries_identity_isfile: "carries_identity fs p pid pname dob \<Longrightarrow> os_path_isfile fs p"
  by (auto simp: carries_identity_def isfile_file_at split: option.splits filedata.splits)










subsection \<open>Referenced files that are not on the disc\<close>

lemma example_index_run_output:
  "(case anonymiseDICOMDIR ''disc/DICOMDIR'' ''out'' example_disc of
      (Inr dd, fs') \<Rightarrow> \<not> os_path_exists fs' ''out/IMG/3'' \<and> os_path_isfile fs' ''out/IMG/2''
                         \<and> os_path_isfile fs' ''out/IMG/1''
    | (Inl e, fs') \<Rightarrow> False)"
  by (simp add: index_eval)

text \<open>
  C5, as stated, fails: the index lists the image \<open>A\<close> and then the image \<open>A/B\<close>. The
  source of the second, \<open>disc/A/B\<close>, does not exist, since \<open>disc/A\<close> is a regular file;
  but its output directory \<open>out/A\<close> is created before the source is looked at, the first
  image was just written there, and the run ends in \<open>FileExistsError\<close>.
\<close>

theorem missing_image_counterexample:
  "os_path_split ''A/B'' = (''A'', ''B'') \<and>
   owns_image (example_listing ! 0) ''A/B'' \<and>
   \<not> os_path_isfile example_clash (os_path_join (os_path_join ''disc'' ''A'') ''B'') \<and>
   (\<exists>fs'. outcome (main 10 ''anonymize.py'' [''anonymize.py'', ''disc'', ''out''] example_clash)
            = Some (Inl FileExistsError, fs'))"
proof -
  have s: "os_path_split ''A/B'' = (''A'', ''B'')"
    by (simp add: os_path_split_def rstrip_slash_def slash_def)
  have o: "owns_image (example_listing ! 0) ''A/B''"
    unfolding owns_image_def
    by (simp add: example_listing_def example_patient_def example_record_def example_image_def
        series_paths_def getattr_def getitem_def tag_for_keyword_def referenced_path_def VM_def
        Path_str_def os_path_join_def slash_def)
  have n: "\<not> os_path_isfile example_clash (os_path_join (os_path_join ''disc'' ''A'') ''B'')"
    by (simp add: os_path_join_def path_eval example_clash_def)
  have m: "\<exists>fs'. outcome (main 10 ''anonymize.py'' [''anonymize.py'', ''disc'', ''out''] example_clash)
            = Some (Inl FileExistsError, fs')"
    by (simp add: main_def main_dispatch_def outcome_def isDICOMDIR_def index_eval
        example_clash_def example_listing_def replacement_id_def patient_redact_def
        set_if_present_def)
  from s o n m show ?thesis by simp
qed

text \<open>
  C5, amended: when the source file of a referenced path does not exist and the output
  directory of that path has been created (the creation comes first and can raise), the
  step for that path raises nothing, creates or changes no file, and the loop goes on
  with the remaining paths.
\<close>

theorem missing_image_is_skipped:
  assumes "os_path_split p = (dirname, fname)"
    and "\<not> os_path_isfile fs (os_path_join (os_path_join dicomdir_dirname dirname) fname)"
    and "os_makedirs (os_path_join output_path dirname) fs = (Inr (), fs1)"
  shows "anonymise_image output_path dicomdir_dirname pid pname dob p fs = (Inr (), fs1) \<and>
         file_at fs1 = file_at fs \<and>
         for_each (anonymise_image output_path dicomdir_dirname pid pname dob) (p # ps) fs
           = for_each (anonymise_image output_path dicomdir_dirname pid pname dob) ps fs1"
proof -
  note m = anonymise_image_missing [OF assms(1,2), of output_path pid pname dob]
  from file_at_os_makedirs [OF assms(3)] have "file_at fs1 = file_at fs" .
  then show ?thesis
    by (simp add: m assms(3))
qed

theorem missing_image_is_skipped_witness:
  "os_path_split ''IMG/3'' = (''IMG'', ''3'') \<and>
   \<not> os_path_isfile example_disc (os_path_join (os_path_join ''disc'' ''IMG'') ''3'') \<and>
   anonymise_image ''out'' ''disc'' ''REMOVED'' ''REMOVED'' ''99991231'' ''IMG/3'' example_disc
     = (Inr (),
        Dir [(''disc'', Dir [(''DICOMDIR'', File (Dicom example_index)),
                             (''IMG'', Dir [(''1'', File (Dicom example_instance)),
                                            (''2'', File (Dicom example_instance))])]),
             (''out'', Dir [(''IMG'', Dir [])])]) \<and>
   for_each (anonymise_image ''out'' ''disc'' ''REMOVED'' ''REMOVED'' ''99991231'')
       [''IMG/3'', ''IMG/2''] example_disc
     = for_each (anonymise_image ''out'' ''disc'' ''REMOVED'' ''REMOVED'' ''99991231'')
         [''IMG/2'']
         (Dir [(''disc'', Dir [(''DICOMDIR'', File (Dicom example_index)),
                               (''IMG'', Dir [(''1'', File (Dicom example_instance)),
                                              (''2'', File (Dicom example_instance))])]),
               (''out'', Dir [(''IMG'', Dir [])])]) \<and>
   (\<exists>dd fs'. anonymiseDICOMDIR ''disc/DICOMDIR'' ''out'' example_disc = (Inr dd, fs') \<and>
      \<not> os_path_exists fs' ''out/IMG/3'' \<and> os_path_isfile fs' ''out/IMG/2'')"
proof -
  have s: "os_path_split ''IMG/3'' = (''IMG'', ''3'')"
    by (simp add: os_path_split_def rstrip_slash_def slash_def)
  have n: "\<not> os_path_isfile example_disc (os_path_join (os_path_join ''disc'' ''IMG'') ''3'')"
    by (simp add: os_path_join_def path_eval example_disc_def)
  have mk: "os_makedirs (os_path_join ''out'' ''IMG'') example_disc
     = (Inr (),
        Dir [(''disc'', Dir [(''DICOMDIR'', File (Dicom example_index)),
                             (''IMG'', Dir [(''1'', File (Dicom example_instance)),
                                            (''2'', File (Dicom example_instance))])]),
             (''out'', Dir [(''IMG'', Dir [])])])"
    by (simp add: os_makedirs_def os_path_join_def path_eval example_disc_def)
  from example_index_run_output have whole:
    "\<exists>dd fs'. anonymiseDICOMDIR ''disc/DICOMDIR'' ''out'' example_disc = (Inr dd, fs') \<and>
      \<not> os_path_exists fs' ''out/IMG/3'' \<and> os_path_isfile fs' ''out/IMG/2''"
    by (cases "anonymiseDICOMDIR ''disc/DICOMDIR'' ''out'' example_disc") (auto split: sum.splits)
  from missing_image_is_skipped [OF s n mk, where pid="''REMOVED''" and pname="''REMOVED''"
      and dob="''99991231''" and ps="[''IMG/2'']"]
    s n mk whole
  show ?thesis by simp
qed

section \<open>Directory mode\<close>

subsection \<open>The step for one file\<close>






subsection \<open>The step for one entry of the walk\<close>






subsection \<open>The loop over the walk\<close>





subsection \<open>Walks that do not write into the walked tree\<close>
























lemma dir_size_pos: "0 < dir_size (Dir es)"
  by simp














lemmas dir_eval = anonymiseDirectory_def scandir_def anonymise_walked_def anonymise_file_def
  os_path_relpath_def path_eval example_dirs_def os_path_join_def os_makedirs_def save_as_def
  anonymise_conv dcmread_def example_mandatory dom_redact_all Let_def numeral_eq_Suc


text \<open>
  With the output directory inside the walked tree, the walk finds in \<open>in/a\<close> the
  directory \<open>out\<close> that the step for \<open>in/e\<close> has made: \<open>in/a\<close> is not a leaf when it is
  reached and its file \<open>f1\<close> is not copied, while the copy of \<open>g\<close> is found and copied
  again.
\<close>

lemma example_overlap_run:
  "\<exists>fs'. anonymiseDirectory 10 ''in'' ''in/a/out'' example_overlap
      = Some ([(''in'', [''e'', ''a''], []),
               (''in/e'', [], [''g'']),
               (''in/a'', [''out''], [''f1'']),
               (''in/a/out'', [''e''], []),
               (''in/a/out/e'', [], [''g''])], Inr (), fs') \<and>
     os_path_isfile fs' ''in/a/out/e/g'' \<and> \<not> os_path_exists fs' ''in/a/out/a/f1'' \<and>
     os_path_isfile fs' ''in/a/out/a/out/e/g''"
  by (simp add: dir_eval example_overlap_def)


section \<open>Idempotence\<close>

lemma anonymise_fixed_point:
  assumes "anonymiseImageFile fs fname pid pname dob = Inr r"
    and "dcmread fs' fname' = Inr r"
  shows "anonymiseImageFile fs' fname' pid pname dob = Inr r"
proof -
  from assms(1) obtain inst where m: "mandatory_tags \<subseteq> dom (elements inst)"
    and r: "r = inst\<lparr>elements := redact_all (elements inst) pid pname dob\<rparr>"
    unfolding anonymise_Inr_iff by blast
  have "mandatory_tags \<subseteq> dom (elements r)"
    using m by (simp add: r dom_redact_all)
  moreover have "r\<lparr>elements := redact_all (elements r) pid pname dob\<rparr> = r"
    by (simp add: r redact_all_idem)
  ultimately show ?thesis
    by (simp add: anonymise_conv assms(2))
qed

lemma dcmread_cong: "file_at fs' = file_at fs \<Longrightarrow> dcmread fs' p = Inr d \<longleftrightarrow> dcmread fs p = Inr d"
  unfolding dcmread_file_at by (erule ssubst) (rule refl)

lemma dcmread_isfile: "dcmread fs p = Inr d \<Longrightarrow> os_path_isfile fs p"
  by (simp add: dcmread_file_at isfile_file_at)

lemma patient_redact_idem:
  "patient_redact (patient_redact ds n i) n i = patient_redact ds n i"
  by (rule ext) (simp add: patient_redact_def set_if_present_apply option.map_comp comp_def)

lemma anonymise_file_again:
  assumes "anonymiseImageFile fs fname ''REMOVED'' ''REMOVED'' ''99991231'' = Inr r"
    and "dcmread fs' (os_path_join dirpath name) = Inr r"
  shows "anonymise_file dirpath output_image_directory name fs'
           = save_as r (os_path_join output_image_directory name) fs'"
  by (simp add: anonymise_file_def anonymise_fixed_point [OF assms])

lemma anonymise_image_again:
  assumes "anonymiseImageFile fs fname pid pname dob = Inr r"
    and "os_path_split p = (dirname, name)"
    and "dcmread fs' (os_path_join (os_path_join dicomdir_dirname dirname) name) = Inr r"
  shows "anonymise_image output_path dicomdir_dirname pid pname dob p fs'
           = (case os_makedirs (os_path_join output_path dirname) fs' of
                (Inl e, fs1) \<Rightarrow> (Inl e, fs1)
              | (Inr u, fs1) \<Rightarrow>
                  save_as r (os_path_join (os_path_join output_path dirname) name) fs1)"
proof -
  let ?src = "os_path_join (os_path_join dicomdir_dirname dirname) name"
  obtain r1 fs1 where mk: "os_makedirs (os_path_join output_path dirname) fs' = (r1, fs1)"
    by (cases "os_makedirs (os_path_join output_path dirname) fs'")
  note f1 = file_at_os_makedirs [OF mk]
  from dcmread_cong [OF f1] assms(3) have rd: "dcmread fs1 ?src = Inr r" by simp
  note again = anonymise_fixed_point [OF assms(1) rd]
  show ?thesis
    by (cases r1) (simp_all add: anonymise_image_def assms(2) mk dcmread_isfile [OF rd] again)
qed

lemma anonymise_patient_again:
  assumes "anonymise_patient output_path dicomdir_dirname n i pat fs = (Inr pat', fs1)"
    and "anonymise_patient output_path2 dicomdir_dirname2 n i pat' fs2 = (Inr pat'', fs3)"
  shows "pat'' = pat'"
proof -
  from anonymise_patient_Inr [OF assms(1)]
  have a: "pat' = DirRecord (patient_redact (record_dataset pat) n i) (children pat)" by blast
  from anonymise_patient_Inr [OF assms(2)]
  have b: "pat'' = DirRecord (patient_redact (record_dataset pat') n i) (children pat')" by blast
  show ?thesis
    unfolding b unfolding a by (simp add: patient_redact_idem)
qed

lemma example_rerun:
  "\<exists>es1 fs1 fs2 es3 fs3.
     anonymiseDirectory 10 ''in'' ''out'' example_dirs = Some (es1, Inr (), fs1) \<and>
     os_makedirs ''again'' fs1 = (Inr (), fs2) \<and>
     anonymiseDirectory 10 ''out'' ''again'' fs2 = Some (es3, Inr (), fs3) \<and>
     lookup fs3 [''again''] = lookup fs1 [''out'']"
  by (simp add: dir_eval redact_all_idem)

lemma example_patient_pass:
  "\<exists>pat' fs1. anonymise_patient ''out'' ''disc'' 2 0
       (example_patient ''ID-1'' [example_image [''IMG'', ''1'']]) example_disc = (Inr pat', fs1)"
  by (simp add: anonymise_patient_conv example_patient_def example_record_def example_image_def
        anonymise_study_def anonymise_series_def series_paths_def
        getattr_def getitem_def tag_for_keyword_def referenced_path_def VM_def Path_str_def
        os_path_join_def os_path_split_def rstrip_slash_def anonymise_image_def os_makedirs_def
        save_as_def anonymise_conv example_mandatory dcmread_def path_eval example_disc_def)

lemma example_patient_second_pass:
  assumes "anonymise_patient ''out'' ''disc'' 2 0
       (example_patient ''ID-1'' [example_image [''IMG'', ''1'']]) example_disc = (Inr pat', fs1)"
  shows "\<exists>pat'' fs3. anonymise_patient ''again'' ''out'' 2 0 pat' (Dir [(''again'', Dir [])])
           = (Inr pat'', fs3)"
proof -
  from anonymise_patient_Inr [OF assms]
  have e: "pat' = DirRecord (patient_redact (record_dataset
              (example_patient ''ID-1'' [example_image [''IMG'', ''1'']])) 2 0)
             (children (example_patient ''ID-1'' [example_image [''IMG'', ''1'']]))"
    by blast
  show ?thesis
    unfolding e
    by (simp add: anonymise_patient_conv patient_redact_def set_if_present_apply
        example_patient_def example_record_def example_image_def
        anonymise_study_def anonymise_series_def series_paths_def
        getattr_def getitem_def tag_for_keyword_def referenced_path_def VM_def Path_str_def
        os_path_join_def os_path_split_def rstrip_slash_def anonymise_image_def os_makedirs_def
        path_eval)
qed

text \<open>
  A record that \<open>anonymiseImageFile\<close> returned for an identity is returned unchanged when
  it is read back and anonymised with the same identity. Hence a second run copies: the
  step of directory mode and the step of index mode, on a source file that holds such a
  record, write that very record to the output path, and the pass over a patient record
  that an earlier pass with the same count and ordinal returned gives the same record
  back. The concrete instance below also runs directory mode twice, the second time on
  the output of the first, and finds the same tree. Nothing is stated about reading back
  a DICOMDIR that a run has written.
\<close>

lemma anonymisation_idempotent:
  "(anonymiseImageFile fs fname pid pname dob = Inr r \<and> dcmread fs' fname' = Inr r
      \<longrightarrow> anonymiseImageFile fs' fname' pid pname dob = Inr r) \<and>
   (anonymiseImageFile fs fname ''REMOVED'' ''REMOVED'' ''99991231'' = Inr r \<and>
    dcmread fs' (os_path_join dirpath name) = Inr r
      \<longrightarrow> anonymise_file dirpath output_image_directory name fs'
            = save_as r (os_path_join output_image_directory name) fs') \<and>
   (anonymiseImageFile fs fname pid pname dob = Inr r \<and> os_path_split p = (dirname, name) \<and>
    dcmread fs' (os_path_join (os_path_join dicomdir_dirname dirname) name) = Inr r
      \<longrightarrow> anonymise_image output_path dicomdir_dirname pid pname dob p fs'
            = (case os_makedirs (os_path_join output_path dirname) fs' of
                 (Inl e, fs1) \<Rightarrow> (Inl e, fs1)
               | (Inr u, fs1) \<Rightarrow>
                   save_as r (os_path_join (os_path_join output_path dirname) name) fs1)) \<and>
   (anonymise_patient output_path dicomdir_dirname n i pat fs = (Inr pat', fs1) \<and>
    anonymise_patient output_path2 dicomdir_dirname2 n i pat' fs2 = (Inr pat'', fs3)
      \<longrightarrow> pat'' = pat')"
proof (intro conjI impI)
  assume "anonymiseImageFile fs fname pid pname dob = Inr r \<and> dcmread fs' fname' = Inr r"
  then show "anonymiseImageFile fs' fname' pid pname dob = Inr r"
    using anonymise_fixed_point by blast
next
  assume "anonymiseImageFile fs fname ''REMOVED'' ''REMOVED'' ''99991231'' = Inr r \<and>
    dcmread fs' (os_path_join dirpath name) = Inr r"
  then have a: "anonymiseImageFile fs fname ''REMOVED'' ''REMOVED'' ''99991231'' = Inr r"
    and b: "dcmread fs' (os_path_join dirpath name) = Inr r" by simp_all
  show "anonymise_file dirpath output_image_directory name fs'
            = save_as r (os_path_join output_image_directory name) fs'"
    by (rule anonymise_file_again [OF a b])
next
  assume "anonymiseImageFile fs fname pid pname dob = Inr r \<and> os_path_split p = (dirname, name) \<and>
    dcmread fs' (os_path_join (os_path_join dicomdir_dirname dirname) name) = Inr r"
  then have a: "anonymiseImageFile fs fname pid pname dob = Inr r"
    and b: "os_path_split p = (dirname, name)"
    and c: "dcmread fs' (os_path_join (os_path_join dicomdir_dirname dirname) name) = Inr r"
    by simp_all
  show "anonymise_image output_path dicomdir_dirname pid pname dob p fs'
            = (case os_makedirs (os_path_join output_path dirname) fs' of
                 (Inl e, fs1) \<Rightarrow> (Inl e, fs1)
               | (Inr u, fs1) \<Rightarrow>
                   save_as r (os_path_join (os_path_join output_path dirname) name) fs1)"
    by (rule anonymise_image_again [OF a b c])
next
  assume "anonymise_patient output_path dicomdir_dirname n i pat fs = (Inr pat', fs1) \<and>
    anonymise_patient output_path2 dicomdir_dirname2 n i pat' fs2 = (Inr pat'', fs3)"
  then have a: "anonymise_patient output_path dicomdir_dirname n i pat fs = (Inr pat', fs1)"
    and b: "anonymise_patient output_path2 dicomdir_dirname2 n i pat' fs2 = (Inr pat'', fs3)"
    by simp_all
  show "pat'' = pat'"
    by (rule anonymise_patient_again [OF a b])
qed

lemma anonymisation_idempotent_example:
  "\<exists>r pat'.
     anonymiseImageFile example_fs ''scan/a.dcm'' ''REMOVED'' ''REMOVED'' ''99991231'' = Inr r \<and>
     dcmread (Dir [(''out'', Dir [(''a.dcm'', File (Dicom r))])]) ''out/a.dcm'' = Inr r \<and>
     anonymiseImageFile (Dir [(''out'', Dir [(''a.dcm'', File (Dicom r))])]) ''out/a.dcm''
       ''REMOVED'' ''REMOVED'' ''99991231'' = Inr r \<and>
     anonymise_file ''out'' ''again'' ''a.dcm'' (Dir [(''out'', Dir [(''a.dcm'', File (Dicom r))])])
       = save_as r ''again/a.dcm'' (Dir [(''out'', Dir [(''a.dcm'', File (Dicom r))])]) \<and>
     anonymise_image ''again'' ''out'' ''REMOVED'' ''REMOVED'' ''99991231'' ''a.dcm''
         (Dir [(''out'', Dir [(''a.dcm'', File (Dicom r))])])
       = (Inr (), Dir [(''out'', Dir [(''a.dcm'', File (Dicom r))]),
                       (''again'', Dir [(''a.dcm'', File (Dicom r))])]) \<and>
     (\<exists>fs1. anonymise_patient ''out'' ''disc'' 2 0
        (example_patient ''ID-1'' [example_image [''IMG'', ''1'']]) example_disc = (Inr pat', fs1)) \<and>
     (\<exists>fs3. anonymise_patient ''again'' ''out'' 2 0 pat' (Dir [(''again'', Dir [])])
        = (Inr pat', fs3)) \<and>
     (\<exists>es1 fs1 fs2 es3 fs3.
        anonymiseDirectory 10 ''in'' ''out'' example_dirs = Some (es1, Inr (), fs1) \<and>
        os_makedirs ''again'' fs1 = (Inr (), fs2) \<and>
        anonymiseDirectory 10 ''out'' ''again'' fs2 = Some (es3, Inr (), fs3) \<and>
        lookup fs3 [''again''] = lookup fs1 [''out''])"
proof -
  obtain r where
    r: "anonymiseImageFile example_fs ''scan/a.dcm'' ''REMOVED'' ''REMOVED'' ''99991231'' = Inr r"
    using example_anonymised by blast
  let ?fs = "Dir [(''out'', Dir [(''a.dcm'', File (Dicom r))])]"
  have rd: "dcmread ?fs ''out/a.dcm'' = Inr r"
    by (simp add: dcmread_def path_eval)
  have j: "os_path_join ''out'' ''a.dcm'' = ''out/a.dcm''"
    "os_path_join ''again'' ''a.dcm'' = ''again/a.dcm''"
    "os_path_join (os_path_join ''out'' []) ''a.dcm'' = ''out/a.dcm''"
    by (simp_all add: os_path_join_def slash_def)
  have sp: "os_path_split ''a.dcm'' = ([], ''a.dcm'')"
    by (simp add: os_path_split_def slash_def)
  note t = anonymisation_idempotent [where fs = example_fs and fname = "''scan/a.dcm''"
      and pid = "''REMOVED''" and pname = "''REMOVED''" and dob = "''99991231''" and r = r
      and fs' = ?fs and fname' = "''out/a.dcm''" and dirpath = "''out''" and name = "''a.dcm''"
      and output_image_directory = "''again''" and p = "''a.dcm''" and dirname = "[]"
      and dicomdir_dirname = "''out''" and output_path = "''again''"]
  from t r rd have a1: "anonymiseImageFile ?fs ''out/a.dcm'' ''REMOVED'' ''REMOVED'' ''99991231'' = Inr r"
    by blast
  from t r rd j have a2: "anonymise_file ''out'' ''again'' ''a.dcm'' ?fs
       = save_as r ''again/a.dcm'' ?fs"
    by simp
  from t r rd j sp have "anonymise_image ''again'' ''out'' ''REMOVED'' ''REMOVED'' ''99991231'' ''a.dcm'' ?fs
       = (case os_makedirs (os_path_join ''again'' []) ?fs of
            (Inl e, fs1) \<Rightarrow> (Inl e, fs1)
          | (Inr u, fs1) \<Rightarrow> save_as r (os_path_join (os_path_join ''again'' []) ''a.dcm'') fs1)"
    by simp
  then have a3: "anonymise_image ''again'' ''out'' ''REMOVED'' ''REMOVED'' ''99991231'' ''a.dcm'' ?fs
       = (Inr (), Dir [(''out'', Dir [(''a.dcm'', File (Dicom r))]),
                       (''again'', Dir [(''a.dcm'', File (Dicom r))])])"
    by (simp add: os_path_join_def os_makedirs_def save_as_def path_eval)
  from example_patient_pass obtain pat' fs1 where
    p1: "anonymise_patient ''out'' ''disc'' 2 0
        (example_patient ''ID-1'' [example_image [''IMG'', ''1'']]) example_disc = (Inr pat', fs1)"
    by blast
  from example_patient_second_pass [OF p1] obtain pat'' fs3 where
    p2: "anonymise_patient ''again'' ''out'' 2 0 pat' (Dir [(''again'', Dir [])]) = (Inr pat'', fs3)"
    by blast
  from anonymisation_idempotent [where output_path = "''out''" and dicomdir_dirname = "''disc''"
      and n = 2 and i = 0 and pat = "example_patient ''ID-1'' [example_image [''IMG'', ''1'']]"
      and fs = example_disc and pat' = pat' and ?fs1.0 = fs1 and ?output_path2.0 = "''again''"
      and ?dicomdir_dirname2.0 = "''out''" and ?fs2.0 = "Dir [(''again'', Dir [])]"
      and pat'' = pat'' and ?fs3.0 = fs3] p1 p2
  have "pat'' = pat'" by blast
  with p2 have a4: "\<exists>fs3. anonymise_patient ''again'' ''out'' 2 0 pat' (Dir [(''again'', Dir [])])
        = (Inr pat', fs3)" by blast
  note a5 = example_rerun
  from r rd a1 a2 a3 p1 a4 a5 show ?thesis by blast
qed

end
